theory Spec2Isabelle
  imports Complex_Main "HOL-Library.Multiset"
begin

section \<open>Data model\<close>

text \<open>
  The enums of \<^verbatim>\<open>schemas/payment-transaction.schema.ts\<close>. A value outside an enum is
  excluded by the type, as \<^verbatim>\<open>@IsEnum\<close> and the schema's \<^verbatim>\<open>enum\<close> option exclude it.
\<close>

datatype TransactionType = PAYMENT | REFUND

datatype TransactionStatus = PENDING | COMPLETED | FAILED

datatype PaymentMethod = CARD | CASH | PAYPAL

datatype Currency = USD | EUR | UAH | GBP

text \<open>
  A \<^verbatim>\<open>Date\<close> is its number of milliseconds since the epoch; an amount is a finite
  number (\<^verbatim>\<open>@IsNumber\<close> rejects NaN and the infinities); an ObjectId is a natural
  number and \<^verbatim>\<open>_id.toString()\<close> is the identity on it. An optional property
  (\<^verbatim>\<open>?:\<close>, \<^verbatim>\<open>@IsOptional\<close>) is an \<open>option\<close>, \<open>None\<close> being \<^verbatim>\<open>undefined\<close>.

  \<^verbatim>\<open>metadata\<close> is an object (\<^verbatim>\<open>@IsObject\<close>): the list of its entries, each value
  a scalar (kept as its text) or again an object; arrays are left out. \<open>[]\<close> is the
  empty object \<^verbatim>\<open>{}\<close>.
\<close>

type_synonym date = int

type_synonym ObjectId = nat

datatype json = Scalar string | Object "(string \<times> json) list"

type_synonym metadata = "(string \<times> json) list"

text \<open>\<^verbatim>\<open>dto/request/create-transaction.dto.ts\<close>\<close>

record CreatePaymentTransactionDto =
  orderId :: string
  amount :: rat
  currency :: "Currency option"
  type :: TransactionType
  status :: TransactionStatus
  paymentMethod :: PaymentMethod
  transactionReference :: "string option"
  description :: "string option"
  transactionTime :: "date option"
  processedBy :: "string option"
  metadata :: "metadata option"

text \<open>\<^verbatim>\<open>dto/response/transaction-response.dto.ts\<close>; \<open>id'\<close> is the field \<^verbatim>\<open>id\<close>.\<close>

record PaymentTransactionResponseDto =
  id' :: ObjectId
  orderId :: string
  amount :: rat
  currency :: Currency
  type :: TransactionType
  status :: TransactionStatus
  paymentMethod :: PaymentMethod
  transactionReference :: "string option"
  description :: "string option"
  transactionTime :: date
  processedBy :: "string option"
  metadata :: "metadata option"
  createdAt :: date
  updatedAt :: date

text \<open>
  \<^verbatim>\<open>dto/request/get-transactions.dto.ts\<close>: \<open>size'\<close> and \<open>from'\<close> are the fields
  \<^verbatim>\<open>size\<close> and \<^verbatim>\<open>from\<close>, integers (\<^verbatim>\<open>@IsInt\<close>) that \<^verbatim>\<open>@Min(1)\<close> and \<^verbatim>\<open>@Min(0)\<close>
  keep from being negative.
\<close>

record GetPaymentTransactionsDto =
  orderId :: string
  size' :: nat
  from' :: nat

text \<open>
  The persisted entity, class \<^verbatim>\<open>PaymentTransaction\<close> of the schema together with the
  \<^verbatim>\<open>_id\<close> of a Mongoose document (field \<open>doc_id\<close>).
\<close>

record PaymentTransaction =
  doc_id :: ObjectId
  orderId :: string
  amount :: rat
  currency :: Currency
  type :: TransactionType
  status :: TransactionStatus
  paymentMethod :: PaymentMethod
  transactionReference :: "string option"
  description :: "string option"
  transactionTime :: date
  processedBy :: "string option"
  metadata :: "metadata option"
  createdAt :: date
  updatedAt :: date

section \<open>Errors, the logger and the world\<close>

text \<open>
  Everything the code can throw. \<open>AxiosError st msg\<close> carries \<^verbatim>\<open>error.response?.status\<close>
  (\<open>None\<close> when there is no response: network failure, timeout) and \<^verbatim>\<open>error.message\<close>;
  \<open>Error\<close> is a plain \<^verbatim>\<open>new Error(msg)\<close>; \<open>ValidationError\<close> is Mongoose's, with the
  paths that failed; \<open>Thrown\<close> is any other thrown value.
\<close>

datatype exn =
    AxiosError "nat option" string
  | NotFoundException string
  | BadRequestException "string list"
  | Error string
  | ValidationError "string list"
  | Thrown string

fun instanceof_AxiosError :: "exn \<Rightarrow> bool" where
  "instanceof_AxiosError (AxiosError st msg) = True"
| "instanceof_AxiosError e = False"

text \<open>\<^verbatim>\<open>interface OrderResponse\<close> with its nested \<^verbatim>\<open>customer\<close>.\<close>

datatype Customer = Customer string string string

datatype OrderResponse = OrderResponse string rat string Customer

text \<open>What \<^verbatim>\<open>firstValueFrom(httpService.get(url))\<close> settles to.\<close>

datatype outcome = Resolved OrderResponse | Rejected exn

text \<open>
  A log line is a level and the pieces of its template literal.
\<close>

datatype level = LOG | DEBUG | WARN | ERROR

datatype piece = Text string | Number nat

text \<open>
  The world the services act on: the MongoDB collection in its natural (insertion)
  order, the counter ObjectIds are generated from, the outbound requests sent to the
  orders service, and the log.
\<close>

record world =
  collection :: "PaymentTransaction list"
  next_id :: ObjectId
  requests :: "string list"
  logs :: "(level \<times> piece list) list"

definition logger :: "level \<Rightarrow> piece list \<Rightarrow> world \<Rightarrow> world" where
  "logger l msg w = w\<lparr>logs := logs w @ [(l, msg)]\<rparr>"

section \<open>\<^verbatim>\<open>orders/orders-client.service.ts\<close>\<close>

text \<open>
  \<open>NODE_ENV\<close> is \<^verbatim>\<open>process.env.NODE_ENV\<close> (\<open>None\<close> when unset) and \<open>httpGet\<close> is
  the answer of the orders service to a GET of a path. \<open>Inr None\<close> is the bare
  \<^verbatim>\<open>return;\<close> of the non-production branch.
\<close>

definition validateOrderExists ::
  "string option \<Rightarrow> (string \<Rightarrow> outcome) \<Rightarrow> string \<Rightarrow> world \<Rightarrow> (exn + OrderResponse option) \<times> world"
where
  "validateOrderExists NODE_ENV httpGet oid w =
    (let w1 = logger DEBUG [Text ''Validating order exists: '', Text oid] w;
         url = ''/api/orders/'' @ oid;
         w2 = w1\<lparr>requests := requests w1 @ [url]\<rparr>
     in case httpGet url of
          Resolved data \<Rightarrow>
            (Inr (Some data), logger DEBUG [Text ''Order validated successfully: '', Text oid] w2)
        | Rejected error \<Rightarrow>
            (case error of
               AxiosError st msg \<Rightarrow>
                 if st = Some 404 then
                   (Inl (NotFoundException (''Order with id '' @ [CHR 0x27] @ oid @ [CHR 0x27] @ '' not found'')),
                    logger WARN [Text ''Order not found: '', Text oid] w2)
                 else if NODE_ENV \<noteq> Some ''production'' then
                   (Inr None,
                    logger WARN [Text ''External service error, because it maybe offline. Continuing in non-production mode. Error was: '', Text msg] w2)
                 else
                   (Inl (Error (''Failed to validate order: '' @ msg)),
                    logger ERROR [Text ''Error validating order '', Text oid, Text '': '', Text msg] w2)
             | _ \<Rightarrow> (Inl error, w2)))"

section \<open>The Mongoose model\<close>

text \<open>
  \<^verbatim>\<open>new this.transactionModel(dto)\<close> at time \<open>ts\<close>: a fresh \<^verbatim>\<open>_id\<close> and the schema's
  defaults (\<^verbatim>\<open>Currency.UAH\<close>, \<^verbatim>\<open>Date.now\<close>) for what the object lacks.
\<close>

definition new_transactionModel ::
  "date \<Rightarrow> CreatePaymentTransactionDto \<Rightarrow> world \<Rightarrow> PaymentTransaction \<times> world"
where
  "new_transactionModel ts dto w =
    (\<lparr> doc_id = next_id w,
       PaymentTransaction.orderId = CreatePaymentTransactionDto.orderId dto,
       amount = CreatePaymentTransactionDto.amount dto,
       currency = (case CreatePaymentTransactionDto.currency dto of None \<Rightarrow> UAH | Some c \<Rightarrow> c),
       type = CreatePaymentTransactionDto.type dto,
       status = CreatePaymentTransactionDto.status dto,
       paymentMethod = CreatePaymentTransactionDto.paymentMethod dto,
       transactionReference = CreatePaymentTransactionDto.transactionReference dto,
       description = CreatePaymentTransactionDto.description dto,
       transactionTime = (case CreatePaymentTransactionDto.transactionTime dto of None \<Rightarrow> ts | Some t \<Rightarrow> t),
       processedBy = CreatePaymentTransactionDto.processedBy dto,
       metadata = CreatePaymentTransactionDto.metadata dto,
       createdAt = ts,
       updatedAt = ts \<rparr>,
     w\<lparr>next_id := Suc (next_id w)\<rparr>)"

text \<open>
  What Mongoose writes for an object under the schema's default \<^verbatim>\<open>minimize\<close> option:
  an entry whose value is an object with nothing left in it is dropped, at every depth.
\<close>

fun minimize_value :: "json \<Rightarrow> json option"
  and minimize_entries :: "(string \<times> json) list \<Rightarrow> (string \<times> json) list"
where
  "minimize_value (Scalar s) = Some (Scalar s)"
| "minimize_value (Object es) =
     (case minimize_entries es of [] \<Rightarrow> None | e # es' \<Rightarrow> Some (Object (e # es')))"
| "minimize_entries [] = []"
| "minimize_entries ((k, v) # es) =
     (case minimize_value v of
        None \<Rightarrow> minimize_entries es
      | Some v' \<Rightarrow> (k, v') # minimize_entries es)"

text \<open>
  The document as it is written to the collection: \<^verbatim>\<open>metadata\<close> minimized, and left
  out altogether when nothing remains of it.
\<close>

definition minimize :: "PaymentTransaction \<Rightarrow> PaymentTransaction" where
  "minimize doc =
     doc\<lparr>PaymentTransaction.metadata :=
           (case PaymentTransaction.metadata doc of
              None \<Rightarrow> None
            | Some es \<Rightarrow> (case minimize_entries es of [] \<Rightarrow> None | e # es' \<Rightarrow> Some (e # es')))\<rparr>"

text \<open>
  \<^verbatim>\<open>save()\<close> of a new document. Validation comes first: \<^verbatim>\<open>required: true\<close> rejects an
  empty \<^verbatim>\<open>orderId\<close> string with a \<^verbatim>\<open>ValidationError\<close> and nothing is written (every other
  required path has a value by its type). Under \<^verbatim>\<open>@Schema({ timestamps: true })\<close>
  \<^verbatim>\<open>createdAt\<close> keeps the value it has and \<^verbatim>\<open>updatedAt\<close> is set to \<^verbatim>\<open>createdAt\<close>. The
  minimized document is appended to the collection; the document in memory, which
  \<^verbatim>\<open>save()\<close> resolves to, keeps its \<^verbatim>\<open>metadata\<close> as it is. The store is taken to be
  reachable.
\<close>

definition save :: "PaymentTransaction \<Rightarrow> world \<Rightarrow> (exn + PaymentTransaction) \<times> world" where
  "save doc w =
    (if PaymentTransaction.orderId doc = [] then (Inl (ValidationError [''orderId'']), w)
     else
       (let saved = doc\<lparr>PaymentTransaction.updatedAt := PaymentTransaction.createdAt doc\<rparr>
        in (Inr saved, w\<lparr>collection := collection w @ [minimize saved]\<rparr>)))"

text \<open>\<^verbatim>\<open>find(filter)\<close>, \<^verbatim>\<open>sort({ transactionTime: -1 })\<close>, \<^verbatim>\<open>skip\<close> and \<^verbatim>\<open>limit\<close> of a query.\<close>

definition find_where :: "string \<Rightarrow> PaymentTransaction list \<Rightarrow> PaymentTransaction list" where
  "find_where oid docs = filter (\<lambda>d. PaymentTransaction.orderId d = oid) docs"

text \<open>
  MongoDB does not say in which order a sort returns documents whose sort keys are
  equal. \<open>tie\<close> ranks the documents as the server happens to arrange them: among equal
  transaction times the lower rank comes first, and documents of equal rank stay in
  their natural order.
\<close>

fun insert_desc ::
  "(PaymentTransaction \<Rightarrow> nat) \<Rightarrow> PaymentTransaction \<Rightarrow> PaymentTransaction list \<Rightarrow> PaymentTransaction list"
where
  "insert_desc tie d [] = [d]"
| "insert_desc tie d (x # xs) =
     (if PaymentTransaction.transactionTime x < PaymentTransaction.transactionTime d
         \<or> (PaymentTransaction.transactionTime x = PaymentTransaction.transactionTime d \<and> tie d \<le> tie x)
      then d # x # xs else x # insert_desc tie d xs)"

fun sort_desc :: "(PaymentTransaction \<Rightarrow> nat) \<Rightarrow> PaymentTransaction list \<Rightarrow> PaymentTransaction list" where
  "sort_desc tie [] = []"
| "sort_desc tie (d # ds) = insert_desc tie d (sort_desc tie ds)"

definition skip :: "nat \<Rightarrow> 'a list \<Rightarrow> 'a list" where
  "skip n xs = drop n xs"

text \<open>In MongoDB a limit of 0 is no limit.\<close>

definition limit :: "nat \<Rightarrow> 'a list \<Rightarrow> 'a list" where
  "limit n xs = (if n = 0 then xs else take n xs)"

text \<open>
  The pipeline \<^verbatim>\<open>[{ $match: { orderId: { $in: orderIds } } },
  { $group: { _id: '$orderId', count: { $sum: 1 } } }]\<close>: one group per distinct
  \<^verbatim>\<open>orderId\<close> among the matched documents, counting them.
\<close>

fun group_add :: "string \<Rightarrow> (string \<times> nat) list \<Rightarrow> (string \<times> nat) list" where
  "group_add k [] = [(k, 1)]"
| "group_add k ((k', c) # gs) = (if k = k' then (k', c + 1) # gs else (k', c) # group_add k gs)"

definition aggregate :: "string list \<Rightarrow> PaymentTransaction list \<Rightarrow> (string \<times> nat) list" where
  "aggregate orderIds docs =
     fold (\<lambda>d gs. group_add (PaymentTransaction.orderId d) gs)
       (filter (\<lambda>d. PaymentTransaction.orderId d \<in> set orderIds) docs) []"

text \<open>\<^verbatim>\<open>deleteMany({ orderId })\<close>: the documents left and \<^verbatim>\<open>deletedCount\<close>.\<close>

definition deleteMany :: "string \<Rightarrow> PaymentTransaction list \<Rightarrow> PaymentTransaction list \<times> nat" where
  "deleteMany oid docs =
     (filter (\<lambda>d. PaymentTransaction.orderId d \<noteq> oid) docs,
      length (filter (\<lambda>d. PaymentTransaction.orderId d = oid) docs))"

section \<open>\<^verbatim>\<open>transactions/transactions.service.ts\<close>\<close>

definition mapToResponseDto :: "PaymentTransaction \<Rightarrow> PaymentTransactionResponseDto" where
  "mapToResponseDto transaction =
    \<lparr> id' = doc_id transaction,
      PaymentTransactionResponseDto.orderId = PaymentTransaction.orderId transaction,
      amount = PaymentTransaction.amount transaction,
      currency = PaymentTransaction.currency transaction,
      type = PaymentTransaction.type transaction,
      status = PaymentTransaction.status transaction,
      paymentMethod = PaymentTransaction.paymentMethod transaction,
      transactionReference = PaymentTransaction.transactionReference transaction,
      description = PaymentTransaction.description transaction,
      transactionTime = PaymentTransaction.transactionTime transaction,
      processedBy = PaymentTransaction.processedBy transaction,
      metadata = PaymentTransaction.metadata transaction,
      createdAt = PaymentTransaction.createdAt transaction,
      updatedAt = PaymentTransaction.updatedAt transaction \<rparr>"

text \<open>
  \<^verbatim>\<open>create\<close>. \<open>now\<close> is the \<^verbatim>\<open>new Date()\<close> of the method and \<open>ts\<close> the \<^verbatim>\<open>Date.now\<close> of the
  model. The method assigns to its argument, so the object the caller passed is
  returned too, as the call leaves it.
\<close>

definition create ::
  "string option \<Rightarrow> (string \<Rightarrow> outcome) \<Rightarrow> date \<Rightarrow> date \<Rightarrow> CreatePaymentTransactionDto \<Rightarrow> world
     \<Rightarrow> (exn + PaymentTransactionResponseDto) \<times> CreatePaymentTransactionDto \<times> world"
where
  "create NODE_ENV httpGet now ts createTransactionDto w =
    (let w1 = logger LOG [Text ''Creating transaction for order: '',
                          Text (CreatePaymentTransactionDto.orderId createTransactionDto)] w
     in case validateOrderExists NODE_ENV httpGet
               (CreatePaymentTransactionDto.orderId createTransactionDto) w1 of
          (Inl e, w2) \<Rightarrow> (Inl e, createTransactionDto, w2)
        | (Inr order, w2) \<Rightarrow>
            (let dto1 = (if CreatePaymentTransactionDto.transactionTime createTransactionDto = None
                         then createTransactionDto\<lparr>CreatePaymentTransactionDto.transactionTime := Some now\<rparr>
                         else createTransactionDto);
                 dto2 = (if CreatePaymentTransactionDto.currency dto1 = None
                         then dto1\<lparr>CreatePaymentTransactionDto.currency := Some UAH\<rparr>
                         else dto1);
                 (createdTransaction, w3) = new_transactionModel ts dto2 w2
             in case save createdTransaction w3 of
                  (Inl e, w4) \<Rightarrow> (Inl e, dto2, w4)
                | (Inr saved, w4) \<Rightarrow>
                    (let w5 = logger LOG [Text ''Transaction created: '', Number (doc_id saved)] w4
                     in (Inr (mapToResponseDto saved), dto2, w5))))"

definition findByOrderId ::
  "(PaymentTransaction \<Rightarrow> nat) \<Rightarrow> GetPaymentTransactionsDto \<Rightarrow> world
     \<Rightarrow> PaymentTransactionResponseDto list \<times> world"
where
  "findByOrderId tie getTransactionsDto w =
    (let oid = GetPaymentTransactionsDto.orderId getTransactionsDto;
         sz = size' getTransactionsDto;
         frm = from' getTransactionsDto;
         w1 = logger DEBUG [Text ''Fetching transactions for order: '', Text oid,
                            Text '', size: '', Number sz, Text '', from: '', Number frm] w;
         transactions = limit sz (skip frm (sort_desc tie (find_where oid (collection w1))));
         w2 = logger DEBUG [Text ''Found '', Number (length transactions),
                            Text '' transactions for order '', Text oid] w1
     in (map mapToResponseDto transactions, w2))"

text \<open>
  \<^verbatim>\<open>counts[key] = n\<close> on the plain object \<^verbatim>\<open>counts\<close>. The object is the map of its own
  keys. Assigning a number to the key \<^verbatim>\<open>__proto__\<close> reaches the prototype setter, which
  ignores a value that is not an object, so no key is created.
\<close>

definition assign :: "string \<Rightarrow> nat \<Rightarrow> (string \<rightharpoonup> nat) \<Rightarrow> (string \<rightharpoonup> nat)" where
  "assign key n counts = (if key = ''__proto__'' then counts else counts(key \<mapsto> n))"

text \<open>\<^verbatim>\<open>getCountsByOrderIds\<close> takes the \<^verbatim>\<open>orderIds\<close> of its request object.\<close>

definition getCountsByOrderIds :: "string list \<Rightarrow> world \<Rightarrow> (string \<rightharpoonup> nat) \<times> world" where
  "getCountsByOrderIds orderIds w =
    (let w1 = logger DEBUG [Text ''Getting transaction counts for '', Number (length orderIds),
                            Text '' orders''] w;
         aggregationResult = aggregate orderIds (collection w1);
         counts0 = fold (\<lambda>orderId counts. assign orderId 0 counts) orderIds Map.empty;
         counts = fold (\<lambda>(k, c) counts. assign k c counts) aggregationResult counts0;
         w2 = logger DEBUG [Text ''Transaction counts calculated for '', Number (length orderIds),
                            Text '' orders''] w1
     in (counts, w2))"

definition deleteByOrderId :: "string \<Rightarrow> world \<Rightarrow> nat \<times> world" where
  "deleteByOrderId oid w =
    (let (rest, deletedCount) = deleteMany oid (collection w)
     in (deletedCount, w\<lparr>collection := rest\<rparr>))"

section \<open>Request validation and \<^verbatim>\<open>transactions.controller.ts\<close>\<close>

text \<open>
  The class-validator decorators of \<^verbatim>\<open>CreatePaymentTransactionDto\<close> that its type here
  does not already enforce: \<^verbatim>\<open>@IsNotEmpty\<close> and \<^verbatim>\<open>@IsUUID\<close> on \<^verbatim>\<open>orderId\<close>,
  \<^verbatim>\<open>@IsPositive\<close> on \<^verbatim>\<open>amount\<close>. The result is the list of violated constraints,
  property by property, the constraints of a property from its last decorator to its
  first. \<open>isUUID\<close> is the library's UUID test.
\<close>

definition validate :: "(string \<Rightarrow> bool) \<Rightarrow> CreatePaymentTransactionDto \<Rightarrow> string list" where
  "validate isUUID dto =
     (if isUUID (CreatePaymentTransactionDto.orderId dto) then [] else [''orderId must be a UUID''])
     @ (if CreatePaymentTransactionDto.orderId dto = [] then [''orderId should not be empty''] else [])
     @ (if 0 < CreatePaymentTransactionDto.amount dto then [] else [''amount must be a positive number''])"

text \<open>
  \<^verbatim>\<open>@UsePipes(new ValidationPipe(...))\<close>: a body with a violated constraint is answered
  with a \<^verbatim>\<open>BadRequestException\<close> (400) and the handler does not run.
\<close>

definition ValidationPipe ::
  "(string \<Rightarrow> bool) \<Rightarrow> CreatePaymentTransactionDto \<Rightarrow> exn + CreatePaymentTransactionDto"
where
  "ValidationPipe isUUID body =
     (case validate isUUID body of [] \<Rightarrow> Inr body | e # es \<Rightarrow> Inl (BadRequestException (e # es)))"

text \<open>\<^verbatim>\<open>TransactionsController.create\<close>, behind its pipe.\<close>

definition controller_create ::
  "(string \<Rightarrow> bool) \<Rightarrow> string option \<Rightarrow> (string \<Rightarrow> outcome) \<Rightarrow> date \<Rightarrow> date
     \<Rightarrow> CreatePaymentTransactionDto \<Rightarrow> world \<Rightarrow> (exn + PaymentTransactionResponseDto) \<times> world"
where
  "controller_create isUUID NODE_ENV httpGet now ts body w =
     (case ValidationPipe isUUID body of
        Inl e \<Rightarrow> (Inl e, w)
      | Inr createTransactionDto \<Rightarrow>
          (let (r, dto', w') = create NODE_ENV httpGet now ts createTransactionDto w in (r, w')))"

section \<open>Auxiliary notions and example values\<close>

text \<open>
  The object \<^verbatim>\<open>create\<close> holds after its two defaulting assignments, in closed form
  (lemma \<open>create_accepted\<close> below relates it to the code).
\<close>

definition normalized :: "date \<Rightarrow> CreatePaymentTransactionDto \<Rightarrow> CreatePaymentTransactionDto" where
  "normalized now dto = dto\<lparr>CreatePaymentTransactionDto.transactionTime :=
        Some (case CreatePaymentTransactionDto.transactionTime dto of None \<Rightarrow> now | Some t \<Rightarrow> t),
      CreatePaymentTransactionDto.currency :=
        Some (case CreatePaymentTransactionDto.currency dto of None \<Rightarrow> UAH | Some c \<Rightarrow> c)\<rparr>"

text \<open>
  The steps of \<open>create\<close> in the order the specification numbers them: (1) normalize
  the input, (2) invoke the validator, (3) insert the normalized input, (4) map the
  persisted record. It follows the specification's words, not the code, and serves
  only to be compared with \<open>create\<close>.
\<close>

definition create_as_specified ::
  "string option \<Rightarrow> (string \<Rightarrow> outcome) \<Rightarrow> date \<Rightarrow> date \<Rightarrow> CreatePaymentTransactionDto \<Rightarrow> world
     \<Rightarrow> (exn + PaymentTransactionResponseDto) \<times> CreatePaymentTransactionDto \<times> world"
where
  "create_as_specified NODE_ENV httpGet now ts input w =
    (let w1 = logger LOG [Text ''Creating transaction for order: '',
                          Text (CreatePaymentTransactionDto.orderId input)] w;
         input' = normalized now input
     in case validateOrderExists NODE_ENV httpGet (CreatePaymentTransactionDto.orderId input') w1 of
          (Inl e, w2) \<Rightarrow> (Inl e, input', w2)
        | (Inr order, w2) \<Rightarrow>
            (let (createdTransaction, w3) = new_transactionModel ts input' w2
             in case save createdTransaction w3 of
                  (Inl e, w4) \<Rightarrow> (Inl e, input', w4)
                | (Inr saved, w4) \<Rightarrow>
                    (let w5 = logger LOG [Text ''Transaction created: '', Number (doc_id saved)] w4
                     in (Inr (mapToResponseDto saved), input', w5))))"


text \<open>Two order ids, as in the repository's tests.\<close>

definition order_A :: string where
  "order_A = ''a1b2c3d4-1111-4444-8888-123456789001''"

definition order_B :: string where
  "order_B = ''a1b2c3d4-1111-4444-8888-123456789002''"

text \<open>
  An instance of the UUID test for the examples: five groups of 8, 4, 4, 4 and 12
  hexadecimal digits, separated by hyphens.
\<close>

definition hex_digit :: "char \<Rightarrow> bool" where
  "hex_digit c = (c \<in> set ''0123456789abcdefABCDEF'')"

fun hex_groups :: "nat list \<Rightarrow> string \<Rightarrow> bool" where
  "hex_groups [] s = False"
| "hex_groups [n] s = (length s = n \<and> list_all hex_digit s)"
| "hex_groups (n # ns) s =
     (n < length s \<and> list_all hex_digit (take n s) \<and> s ! n = CHR ''-''
      \<and> hex_groups ns (drop (Suc n) s))"

definition uuid_shaped :: "string \<Rightarrow> bool" where
  "uuid_shaped s = hex_groups [8, 4, 4, 4, 12] s"

text \<open>A payment of 200 with neither currency nor transaction time, and its refund.\<close>

definition payment_200 :: CreatePaymentTransactionDto where
  "payment_200 =
    \<lparr> CreatePaymentTransactionDto.orderId = order_A, amount = 200, currency = None,
      type = PAYMENT, status = COMPLETED, paymentMethod = CARD,
      transactionReference = None, description = None, transactionTime = None,
      processedBy = None, metadata = None \<rparr>"


text \<open>The empty world.\<close>

definition world0 :: world where
  "world0 = \<lparr> collection = [], next_id = 0, requests = [], logs = [] \<rparr>"

text \<open>
  Four orders services: one that knows every order, one that knows none, one that is
  unreachable, and a client that fails before any request is made.
\<close>

definition orders_up :: "string \<Rightarrow> outcome" where
  "orders_up url = Resolved (OrderResponse order_A (301 / 2) ''NEW'' (Customer ''c1'' ''Ada'' ''Lovelace''))"

definition orders_404 :: "string \<Rightarrow> outcome" where
  "orders_404 url = Rejected (AxiosError (Some 404) ''Request failed with status code 404'')"

definition orders_down :: "string \<Rightarrow> outcome" where
  "orders_down url = Rejected (AxiosError None ''connect ECONNREFUSED'')"

definition orders_broken :: "string \<Rightarrow> outcome" where
  "orders_broken url = Rejected (Thrown ''EmptyError'')"

text \<open>A third order id, and a stored transaction of a given id, order and time.\<close>

definition order_C :: string where
  "order_C = ''a1b2c3d4-1111-4444-8888-123456789003''"

definition tx :: "ObjectId \<Rightarrow> string \<Rightarrow> date \<Rightarrow> PaymentTransaction" where
  "tx i oid t =
    \<lparr> doc_id = i, PaymentTransaction.orderId = oid, amount = 100, currency = UAH,
      type = PAYMENT, status = COMPLETED, paymentMethod = CARD,
      transactionReference = None, description = None, transactionTime = t,
      processedBy = None, metadata = None, createdAt = 0, updatedAt = 0 \<rparr>"

text \<open>A world holding five transactions of \<open>order_A\<close>, one of \<open>order_B\<close>, none of \<open>order_C\<close>.\<close>

definition world5 :: world where
  "world5 =
    \<lparr> collection = [tx 0 order_A 30, tx 1 order_B 10, tx 2 order_A 50, tx 3 order_A 10,
                    tx 4 order_A 40, tx 5 order_A 20],
      next_id = 6, requests = [], logs = [] \<rparr>"

text \<open>The response that lists the stored transaction \<open>tx i oid t\<close>.\<close>

definition tx_response :: "ObjectId \<Rightarrow> string \<Rightarrow> date \<Rightarrow> PaymentTransactionResponseDto" where
  "tx_response i oid t =
    \<lparr> id' = i, PaymentTransactionResponseDto.orderId = oid, amount = 100, currency = UAH,
      type = PAYMENT, status = COMPLETED, paymentMethod = CARD,
      transactionReference = None, description = None, transactionTime = t,
      processedBy = None, metadata = None, createdAt = 0, updatedAt = 0 \<rparr>"

text \<open>A server that ranks all documents alike, and one that ranks the later-stored first.\<close>

definition no_tie :: "PaymentTransaction \<Rightarrow> nat" where
  "no_tie d = 0"

definition newest_first :: "PaymentTransaction \<Rightarrow> nat" where
  "newest_first d = 1000 - doc_id d"


text \<open>A world holding two transactions of \<open>order_A\<close> with the same transaction time.\<close>

definition world_tie :: world where
  "world_tie =
    \<lparr> collection = [tx 0 order_A 30, tx 1 order_A 30], next_id = 2, requests = [], logs = [] \<rparr>"



section \<open>Frame and shape of \<^verbatim>\<open>validateOrderExists\<close> and \<^verbatim>\<open>create\<close>\<close>

lemma validateOrderExists_frame:
  "requests (snd (validateOrderExists NODE_ENV httpGet oid w)) = requests w @ [''/api/orders/'' @ oid]"
  "collection (snd (validateOrderExists NODE_ENV httpGet oid w)) = collection w"
  "next_id (snd (validateOrderExists NODE_ENV httpGet oid w)) = next_id w"
  by (simp_all add: validateOrderExists_def logger_def Let_def split: outcome.splits exn.splits)

lemma logger_frame:
  "collection (logger l m w) = collection w"
  "next_id (logger l m w) = next_id w"
  "requests (logger l m w) = requests w"
  by (simp_all add: logger_def)

lemma validateOrderExists_result_logger:
  "fst (validateOrderExists NODE_ENV httpGet oid (logger l m w)) = fst (validateOrderExists NODE_ENV httpGet oid w)"
  by (simp add: validateOrderExists_def logger_def Let_def split: outcome.splits exn.splits)

lemma create_rejected:
  assumes "validateOrderExists NODE_ENV httpGet (CreatePaymentTransactionDto.orderId dto)
             (logger LOG [Text ''Creating transaction for order: '', Text (CreatePaymentTransactionDto.orderId dto)] w) = (Inl e, w2)"
  shows "create NODE_ENV httpGet now ts dto w = (Inl e, dto, w2)"
  using assms by (simp add: create_def)

lemma create_rejected':
  assumes "fst (validateOrderExists NODE_ENV httpGet (CreatePaymentTransactionDto.orderId dto) w) = Inl e"
  shows "fst (create NODE_ENV httpGet now ts dto w) = Inl e"
    and "fst (snd (create NODE_ENV httpGet now ts dto w)) = dto"
    and "collection (snd (snd (create NODE_ENV httpGet now ts dto w))) = collection w"
    and "next_id (snd (snd (create NODE_ENV httpGet now ts dto w))) = next_id w"
    and "requests (snd (snd (create NODE_ENV httpGet now ts dto w)))
           = requests w @ [''/api/orders/'' @ CreatePaymentTransactionDto.orderId dto]"
proof -
  let ?w1 = "logger LOG [Text ''Creating transaction for order: '', Text (CreatePaymentTransactionDto.orderId dto)] w"
  let ?v = "validateOrderExists NODE_ENV httpGet (CreatePaymentTransactionDto.orderId dto) ?w1"
  have "fst ?v = Inl e" using assms by (simp add: validateOrderExists_result_logger)
  then have v: "?v = (Inl e, snd ?v)" by (metis prod.collapse)
  have c: "create NODE_ENV httpGet now ts dto w = (Inl e, dto, snd ?v)"
    by (rule create_rejected [OF v])
  show "fst (create NODE_ENV httpGet now ts dto w) = Inl e" by (simp add: c)
  show "fst (snd (create NODE_ENV httpGet now ts dto w)) = dto" by (simp add: c)
  show "collection (snd (snd (create NODE_ENV httpGet now ts dto w))) = collection w"
    by (simp add: c validateOrderExists_frame logger_frame)
  show "next_id (snd (snd (create NODE_ENV httpGet now ts dto w))) = next_id w"
    by (simp add: c validateOrderExists_frame logger_frame)
  show "requests (snd (snd (create NODE_ENV httpGet now ts dto w)))
           = requests w @ [''/api/orders/'' @ CreatePaymentTransactionDto.orderId dto]"
    by (simp add: c validateOrderExists_frame logger_frame)
qed

lemma create_normalizes:
  "(if CreatePaymentTransactionDto.currency
        (if CreatePaymentTransactionDto.transactionTime dto = None
         then dto\<lparr>CreatePaymentTransactionDto.transactionTime := Some now\<rparr> else dto) = None
    then (if CreatePaymentTransactionDto.transactionTime dto = None
          then dto\<lparr>CreatePaymentTransactionDto.transactionTime := Some now\<rparr> else dto)
           \<lparr>CreatePaymentTransactionDto.currency := Some UAH\<rparr>
    else (if CreatePaymentTransactionDto.transactionTime dto = None
          then dto\<lparr>CreatePaymentTransactionDto.transactionTime := Some now\<rparr> else dto))
   = normalized now dto"
  by (cases "CreatePaymentTransactionDto.transactionTime dto"; cases "CreatePaymentTransactionDto.currency dto")
     (simp_all add: normalized_def)

lemma new_transactionModel_shape:
  "next_id w' = next_id w \<Longrightarrow>
     new_transactionModel ts dto w' = (fst (new_transactionModel ts dto w), w'\<lparr>next_id := Suc (next_id w')\<rparr>)"
  "PaymentTransaction.orderId (fst (new_transactionModel ts dto w)) = CreatePaymentTransactionDto.orderId dto"
  "CreatePaymentTransactionDto.orderId (normalized now dto) = CreatePaymentTransactionDto.orderId dto"
  by (simp_all add: new_transactionModel_def normalized_def)

lemma save_new:
  "save (fst (new_transactionModel ts dto w)) w' =
     (if CreatePaymentTransactionDto.orderId dto = [] then (Inl (ValidationError [''orderId'']), w')
      else (Inr (fst (new_transactionModel ts dto w)),
            w'\<lparr>collection := collection w' @ [minimize (fst (new_transactionModel ts dto w))]\<rparr>))"
  by (simp add: save_def Let_def new_transactionModel_def)

lemma create_accepted:
  assumes "fst (validateOrderExists NODE_ENV httpGet (CreatePaymentTransactionDto.orderId dto) w) = Inr v"
  shows "fst (create NODE_ENV httpGet now ts dto w)
           = (if CreatePaymentTransactionDto.orderId dto = [] then Inl (ValidationError [''orderId''])
              else Inr (mapToResponseDto (fst (new_transactionModel ts (normalized now dto) w))))"
    and "fst (snd (create NODE_ENV httpGet now ts dto w)) = normalized now dto"
    and "collection (snd (snd (create NODE_ENV httpGet now ts dto w)))
           = (if CreatePaymentTransactionDto.orderId dto = [] then collection w
              else collection w @ [minimize (fst (new_transactionModel ts (normalized now dto) w))])"
    and "next_id (snd (snd (create NODE_ENV httpGet now ts dto w))) = Suc (next_id w)"
    and "requests (snd (snd (create NODE_ENV httpGet now ts dto w)))
           = requests w @ [''/api/orders/'' @ CreatePaymentTransactionDto.orderId dto]"
proof -
  let ?w1 = "logger LOG [Text ''Creating transaction for order: '', Text (CreatePaymentTransactionDto.orderId dto)] w"
  let ?v = "validateOrderExists NODE_ENV httpGet (CreatePaymentTransactionDto.orderId dto) ?w1"
  let ?new = "fst (new_transactionModel ts (normalized now dto) w)"
  let ?w3 = "(snd ?v)\<lparr>next_id := Suc (next_id (snd ?v))\<rparr>"
  have "fst ?v = Inr v" using assms by (simp add: validateOrderExists_result_logger)
  then have v: "?v = (Inr v, snd ?v)" by (metis prod.collapse)
  have nid: "next_id (snd ?v) = next_id w" by (simp add: validateOrderExists_frame logger_frame)
  have c: "create NODE_ENV httpGet now ts dto w =
             (if CreatePaymentTransactionDto.orderId dto = []
              then (Inl (ValidationError [''orderId'']), normalized now dto, ?w3)
              else (Inr (mapToResponseDto ?new), normalized now dto,
                    logger LOG [Text ''Transaction created: '', Number (doc_id ?new)]
                      (?w3\<lparr>collection := collection ?w3 @ [minimize ?new]\<rparr>)))"
    unfolding create_def Let_def
    apply (subst v)
    apply (simp only: prod.case sum.case create_normalizes new_transactionModel_shape(1) [OF nid]
        save_new new_transactionModel_shape(3))
    apply simp
    done
  show "fst (create NODE_ENV httpGet now ts dto w)
           = (if CreatePaymentTransactionDto.orderId dto = [] then Inl (ValidationError [''orderId''])
              else Inr (mapToResponseDto ?new))"
    by (simp add: c)
  show "fst (snd (create NODE_ENV httpGet now ts dto w)) = normalized now dto" by (simp add: c)
  show "collection (snd (snd (create NODE_ENV httpGet now ts dto w)))
           = (if CreatePaymentTransactionDto.orderId dto = [] then collection w
              else collection w @ [minimize ?new])"
    by (simp add: c validateOrderExists_frame logger_frame)
  show "next_id (snd (snd (create NODE_ENV httpGet now ts dto w))) = Suc (next_id w)"
    by (simp add: c validateOrderExists_frame logger_frame)
  show "requests (snd (snd (create NODE_ENV httpGet now ts dto w)))
           = requests w @ [''/api/orders/'' @ CreatePaymentTransactionDto.orderId dto]"
    by (simp add: c validateOrderExists_frame logger_frame)
qed

section \<open>The order-existence gate\<close>

text \<open>
  C1. When the lookup fails with a transport error other than a 404 response (no
  response at all, or any other status), \<open>validateOrderExists\<close> depends on the
  environment. In production it throws the error \<^verbatim>\<open>Failed to validate order: ...\<close>,
  \<open>create\<close> throws it too and the collection is unchanged. Outside production it logs a
  warning and returns with no summary, and \<open>create\<close> goes on to the store: the
  transaction is stored and returned (an empty order id is what the store's own
  validation refuses).
\<close>

theorem validateOrderExists_unavailable:
  assumes "httpGet (''/api/orders/'' @ CreatePaymentTransactionDto.orderId dto) = Rejected (AxiosError st msg)"
    and "st \<noteq> Some 404"
  shows "(NODE_ENV = Some ''production'' \<longrightarrow>
            fst (validateOrderExists NODE_ENV httpGet (CreatePaymentTransactionDto.orderId dto) w)
              = Inl (Error (''Failed to validate order: '' @ msg))
          \<and> fst (create NODE_ENV httpGet now ts dto w) = Inl (Error (''Failed to validate order: '' @ msg))
          \<and> collection (snd (snd (create NODE_ENV httpGet now ts dto w))) = collection w)
       \<and> (NODE_ENV \<noteq> Some ''production'' \<longrightarrow>
            fst (validateOrderExists NODE_ENV httpGet (CreatePaymentTransactionDto.orderId dto) w) = Inr None
          \<and> last (logs (snd (validateOrderExists NODE_ENV httpGet (CreatePaymentTransactionDto.orderId dto) w)))
              = (WARN, [Text ''External service error, because it maybe offline. Continuing in non-production mode. Error was: '', Text msg])
          \<and> fst (create NODE_ENV httpGet now ts dto w)
              = (if CreatePaymentTransactionDto.orderId dto = [] then Inl (ValidationError [''orderId''])
                 else Inr (mapToResponseDto (fst (new_transactionModel ts (normalized now dto) w))))
          \<and> collection (snd (snd (create NODE_ENV httpGet now ts dto w)))
              = (if CreatePaymentTransactionDto.orderId dto = [] then collection w
                 else collection w @ [minimize (fst (new_transactionModel ts (normalized now dto) w))]))"
proof (intro conjI impI)
  assume p: "NODE_ENV = Some ''production''"
  show v: "fst (validateOrderExists NODE_ENV httpGet (CreatePaymentTransactionDto.orderId dto) w)
              = Inl (Error (''Failed to validate order: '' @ msg))"
    using assms p by (simp add: validateOrderExists_def Let_def)
  show "fst (create NODE_ENV httpGet now ts dto w) = Inl (Error (''Failed to validate order: '' @ msg))"
    by (rule create_rejected'(1) [OF v])
  show "collection (snd (snd (create NODE_ENV httpGet now ts dto w))) = collection w"
    by (rule create_rejected'(3) [OF v])
next
  assume p: "NODE_ENV \<noteq> Some ''production''"
  show v: "fst (validateOrderExists NODE_ENV httpGet (CreatePaymentTransactionDto.orderId dto) w) = Inr None"
    using assms p by (simp add: validateOrderExists_def Let_def)
  show "last (logs (snd (validateOrderExists NODE_ENV httpGet (CreatePaymentTransactionDto.orderId dto) w)))
              = (WARN, [Text ''External service error, because it maybe offline. Continuing in non-production mode. Error was: '', Text msg])"
    using assms p by (simp add: validateOrderExists_def Let_def logger_def)
  show "fst (create NODE_ENV httpGet now ts dto w)
              = (if CreatePaymentTransactionDto.orderId dto = [] then Inl (ValidationError [''orderId''])
                 else Inr (mapToResponseDto (fst (new_transactionModel ts (normalized now dto) w))))"
    by (rule create_accepted(1) [OF v])
  show "collection (snd (snd (create NODE_ENV httpGet now ts dto w)))
              = (if CreatePaymentTransactionDto.orderId dto = [] then collection w
                 else collection w @ [minimize (fst (new_transactionModel ts (normalized now dto) w))])"
    by (rule create_accepted(3) [OF v])
qed

theorem validateOrderExists_unavailable_witness:
  "orders_down (''/api/orders/'' @ CreatePaymentTransactionDto.orderId payment_200)
      = Rejected (AxiosError None ''connect ECONNREFUSED'')
   \<and> (None :: nat option) \<noteq> Some 404
   \<and> fst (validateOrderExists (Some ''production'') orders_down order_A world0)
      = Inl (Error ''Failed to validate order: connect ECONNREFUSED'')
   \<and> collection (snd (snd (create (Some ''production'') orders_down 1000 1001 payment_200 world0))) = []
   \<and> fst (validateOrderExists (Some ''development'') orders_down order_A world0) = Inr None
   \<and> length (collection (snd (snd (create (Some ''development'') orders_down 1000 1001 payment_200 world0)))) = 1"
proof -
  have h1: "orders_down (''/api/orders/'' @ CreatePaymentTransactionDto.orderId payment_200)
      = Rejected (AxiosError None ''connect ECONNREFUSED'')"
    by (simp add: orders_down_def)
  have h2: "(None :: nat option) \<noteq> Some 404" by simp
  have o: "CreatePaymentTransactionDto.orderId payment_200 = order_A" by (simp add: payment_200_def)
  have ne: "order_A \<noteq> []" by (simp add: order_A_def)
  show ?thesis
    using h1 h2 ne
      validateOrderExists_unavailable [where httpGet = orders_down and dto = payment_200
        and NODE_ENV = "Some ''production''" and w = world0 and now = 1000 and ts = 1001, OF h1 h2]
      validateOrderExists_unavailable [where httpGet = orders_down and dto = payment_200
        and NODE_ENV = "Some ''development''" and w = world0 and now = 1000 and ts = 1001, OF h1 h2]
    by (simp add: o world0_def)
qed

text \<open>
  C9. A rejection of the lookup that is not an \<^verbatim>\<open>AxiosError\<close> is rethrown unchanged,
  whatever the environment.
\<close>

theorem validateOrderExists_rethrows_foreign:
  assumes "httpGet (''/api/orders/'' @ oid) = Rejected e" and "\<not> instanceof_AxiosError e"
  shows "fst (validateOrderExists NODE_ENV httpGet oid w) = Inl e"
  using assms by (cases e) (simp_all add: validateOrderExists_def Let_def)

theorem validateOrderExists_rethrows_foreign_witness:
  "orders_broken (''/api/orders/'' @ order_A) = Rejected (Thrown ''EmptyError'')
   \<and> \<not> instanceof_AxiosError (Thrown ''EmptyError'')
   \<and> fst (validateOrderExists (Some ''development'') orders_broken order_A world0) = Inl (Thrown ''EmptyError'')
   \<and> fst (validateOrderExists (Some ''production'') orders_broken order_A world0) = Inl (Thrown ''EmptyError'')
   \<and> fst (validateOrderExists None orders_broken order_A world0) = Inl (Thrown ''EmptyError'')"
proof -
  have h1: "orders_broken (''/api/orders/'' @ order_A) = Rejected (Thrown ''EmptyError'')"
    by (simp add: orders_broken_def)
  have h2: "\<not> instanceof_AxiosError (Thrown ''EmptyError'')" by simp
  show ?thesis
    using h1 h2
      validateOrderExists_rethrows_foreign [where httpGet = orders_broken and oid = order_A
        and NODE_ENV = "Some ''development''" and w = world0, OF h1 h2]
      validateOrderExists_rethrows_foreign [where httpGet = orders_broken and oid = order_A
        and NODE_ENV = "Some ''production''" and w = world0, OF h1 h2]
      validateOrderExists_rethrows_foreign [where httpGet = orders_broken and oid = order_A
        and NODE_ENV = None and w = world0, OF h1 h2]
    by simp
qed

text \<open>
  C2. When the orders service answers 404, \<open>validateOrderExists\<close> throws a
  \<^verbatim>\<open>NotFoundException\<close> whose message carries the order id, \<open>create\<close> throws the same
  exception, and the collection is unchanged.
\<close>

theorem create_order_not_found:
  assumes "httpGet (''/api/orders/'' @ CreatePaymentTransactionDto.orderId dto) = Rejected (AxiosError (Some 404) msg)"
  shows "fst (validateOrderExists NODE_ENV httpGet (CreatePaymentTransactionDto.orderId dto) w)
           = Inl (NotFoundException (''Order with id '' @ [CHR 0x27] @ CreatePaymentTransactionDto.orderId dto
                                       @ [CHR 0x27] @ '' not found''))
       \<and> fst (create NODE_ENV httpGet now ts dto w)
           = Inl (NotFoundException (''Order with id '' @ [CHR 0x27] @ CreatePaymentTransactionDto.orderId dto
                                       @ [CHR 0x27] @ '' not found''))
       \<and> collection (snd (snd (create NODE_ENV httpGet now ts dto w))) = collection w"
proof -
  have v: "fst (validateOrderExists NODE_ENV httpGet (CreatePaymentTransactionDto.orderId dto) w)
           = Inl (NotFoundException (''Order with id '' @ [CHR 0x27] @ CreatePaymentTransactionDto.orderId dto
                                       @ [CHR 0x27] @ '' not found''))"
    using assms by (simp add: validateOrderExists_def Let_def)
  show ?thesis
    using v create_rejected'(1) [OF v] create_rejected'(3) [OF v] by simp
qed

theorem create_order_not_found_witness:
  "orders_404 (''/api/orders/'' @ CreatePaymentTransactionDto.orderId payment_200)
      = Rejected (AxiosError (Some 404) ''Request failed with status code 404'')
   \<and> fst (create (Some ''production'') orders_404 1000 1001 payment_200 world0)
      = Inl (NotFoundException (''Order with id '' @ [CHR 0x27] @ order_A @ [CHR 0x27] @ '' not found''))
   \<and> collection (snd (snd (create (Some ''production'') orders_404 1000 1001 payment_200 world0))) = []"
proof -
  have h: "orders_404 (''/api/orders/'' @ CreatePaymentTransactionDto.orderId payment_200)
      = Rejected (AxiosError (Some 404) ''Request failed with status code 404'')"
    by (simp add: orders_404_def)
  have o: "CreatePaymentTransactionDto.orderId payment_200 = order_A" by (simp add: payment_200_def)
  show ?thesis
    using h create_order_not_found [where httpGet = orders_404 and dto = payment_200
        and NODE_ENV = "Some ''production''" and w = world0 and now = 1000 and ts = 1001, OF h]
    by (simp add: o world0_def)
qed

section \<open>Creating a transaction\<close>

lemma controller_create_valid:
  assumes "validate isUUID body = []"
  shows "controller_create isUUID NODE_ENV httpGet now ts body w
           = (fst (create NODE_ENV httpGet now ts body w), snd (snd (create NODE_ENV httpGet now ts body w)))"
  using assms by (simp add: controller_create_def ValidationPipe_def case_prod_beta)

text \<open>
  C3. When the referenced order exists and the order id is not empty (as it is in every
  valid input), \<open>create\<close> returns a response whose id is the freshly generated ObjectId,
  whose \<open>createdAt\<close> is at most its \<open>updatedAt\<close>, and whose other fields are those
  submitted, the currency being UAH when none was submitted and the transaction time
  being the current time when none was submitted. For a body that passes validation the
  controller returns that same response.
\<close>

theorem create_response:
  assumes "httpGet (''/api/orders/'' @ CreatePaymentTransactionDto.orderId dto) = Resolved order"
    and "CreatePaymentTransactionDto.orderId dto \<noteq> []"
  shows "\<exists>r. fst (create NODE_ENV httpGet now ts dto w) = Inr r
          \<and> id' r = next_id w
          \<and> next_id (snd (snd (create NODE_ENV httpGet now ts dto w))) = Suc (next_id w)
          \<and> PaymentTransactionResponseDto.createdAt r \<le> PaymentTransactionResponseDto.updatedAt r
          \<and> PaymentTransactionResponseDto.orderId r = CreatePaymentTransactionDto.orderId dto
          \<and> PaymentTransactionResponseDto.amount r = CreatePaymentTransactionDto.amount dto
          \<and> PaymentTransactionResponseDto.type r = CreatePaymentTransactionDto.type dto
          \<and> PaymentTransactionResponseDto.status r = CreatePaymentTransactionDto.status dto
          \<and> PaymentTransactionResponseDto.paymentMethod r = CreatePaymentTransactionDto.paymentMethod dto
          \<and> PaymentTransactionResponseDto.transactionReference r = CreatePaymentTransactionDto.transactionReference dto
          \<and> PaymentTransactionResponseDto.description r = CreatePaymentTransactionDto.description dto
          \<and> PaymentTransactionResponseDto.processedBy r = CreatePaymentTransactionDto.processedBy dto
          \<and> PaymentTransactionResponseDto.metadata r = CreatePaymentTransactionDto.metadata dto
          \<and> PaymentTransactionResponseDto.currency r
               = (case CreatePaymentTransactionDto.currency dto of None \<Rightarrow> UAH | Some c \<Rightarrow> c)
          \<and> PaymentTransactionResponseDto.transactionTime r
               = (case CreatePaymentTransactionDto.transactionTime dto of None \<Rightarrow> now | Some t \<Rightarrow> t)
          \<and> (validate isUUID dto = [] \<longrightarrow>
                 fst (controller_create isUUID NODE_ENV httpGet now ts dto w) = Inr r)"
proof -
  have v: "fst (validateOrderExists NODE_ENV httpGet (CreatePaymentTransactionDto.orderId dto) w) = Inr (Some order)"
    using assms(1) by (simp add: validateOrderExists_def Let_def)
  let ?r = "mapToResponseDto (fst (new_transactionModel ts (normalized now dto) w))"
  have c: "fst (create NODE_ENV httpGet now ts dto w) = Inr ?r"
    using create_accepted(1) [OF v, of now ts] assms(2) by simp
  have n: "next_id (snd (snd (create NODE_ENV httpGet now ts dto w))) = Suc (next_id w)"
    by (rule create_accepted(4) [OF v])
  have k: "validate isUUID dto = [] \<longrightarrow>
             fst (controller_create isUUID NODE_ENV httpGet now ts dto w) = Inr ?r"
    using c by (simp add: controller_create_valid)
  have f: "id' ?r = next_id w
          \<and> PaymentTransactionResponseDto.createdAt ?r \<le> PaymentTransactionResponseDto.updatedAt ?r
          \<and> PaymentTransactionResponseDto.orderId ?r = CreatePaymentTransactionDto.orderId dto
          \<and> PaymentTransactionResponseDto.amount ?r = CreatePaymentTransactionDto.amount dto
          \<and> PaymentTransactionResponseDto.type ?r = CreatePaymentTransactionDto.type dto
          \<and> PaymentTransactionResponseDto.status ?r = CreatePaymentTransactionDto.status dto
          \<and> PaymentTransactionResponseDto.paymentMethod ?r = CreatePaymentTransactionDto.paymentMethod dto
          \<and> PaymentTransactionResponseDto.transactionReference ?r = CreatePaymentTransactionDto.transactionReference dto
          \<and> PaymentTransactionResponseDto.description ?r = CreatePaymentTransactionDto.description dto
          \<and> PaymentTransactionResponseDto.processedBy ?r = CreatePaymentTransactionDto.processedBy dto
          \<and> PaymentTransactionResponseDto.metadata ?r = CreatePaymentTransactionDto.metadata dto
          \<and> PaymentTransactionResponseDto.currency ?r
               = (case CreatePaymentTransactionDto.currency dto of None \<Rightarrow> UAH | Some c \<Rightarrow> c)
          \<and> PaymentTransactionResponseDto.transactionTime ?r
               = (case CreatePaymentTransactionDto.transactionTime dto of None \<Rightarrow> now | Some t \<Rightarrow> t)"
    by (simp add: mapToResponseDto_def new_transactionModel_def normalized_def)
  show ?thesis using c n k f by blast
qed

theorem create_response_witness:
  "orders_up (''/api/orders/'' @ CreatePaymentTransactionDto.orderId payment_200)
      = Resolved (OrderResponse order_A (301 / 2) ''NEW'' (Customer ''c1'' ''Ada'' ''Lovelace''))
   \<and> CreatePaymentTransactionDto.orderId payment_200 \<noteq> []
   \<and> validate uuid_shaped payment_200 = []
   \<and> fst (controller_create uuid_shaped None orders_up 1000 1001 payment_200 world0)
      = Inr \<lparr> id' = 0, PaymentTransactionResponseDto.orderId = order_A, amount = 200, currency = UAH,
              type = PAYMENT, status = COMPLETED, paymentMethod = CARD,
              transactionReference = None, description = None, transactionTime = 1000,
              processedBy = None, metadata = None, createdAt = 1001, updatedAt = 1001 \<rparr>"
proof -
  have uuid_A: "uuid_shaped order_A" "order_A \<noteq> []"
    by (simp_all add: uuid_shaped_def order_A_def hex_digit_def)
  have h: "orders_up (''/api/orders/'' @ CreatePaymentTransactionDto.orderId payment_200)
      = Resolved (OrderResponse order_A (301 / 2) ''NEW'' (Customer ''c1'' ''Ada'' ''Lovelace''))"
    by (simp add: orders_up_def)
  have ne: "CreatePaymentTransactionDto.orderId payment_200 \<noteq> []"
    by (simp add: payment_200_def uuid_A)
  have g: "validate uuid_shaped payment_200 = []"
    by (simp add: validate_def payment_200_def uuid_A)
  obtain r where r: "fst (create None orders_up 1000 1001 payment_200 world0) = Inr r"
      "id' r = next_id world0"
      "PaymentTransactionResponseDto.createdAt r \<le> PaymentTransactionResponseDto.updatedAt r"
      "validate uuid_shaped payment_200 = [] \<longrightarrow>
                 fst (controller_create uuid_shaped None orders_up 1000 1001 payment_200 world0) = Inr r"
    using create_response [where httpGet = orders_up and dto = payment_200 and NODE_ENV = None
        and now = 1000 and ts = 1001 and w = world0 and isUUID = uuid_shaped, OF h ne]
    by blast
  have "fst (controller_create uuid_shaped None orders_up 1000 1001 payment_200 world0)
          = fst (create None orders_up 1000 1001 payment_200 world0)"
    using r(1) r(4) g by simp
  moreover have "fst (create None orders_up 1000 1001 payment_200 world0)
      = Inr \<lparr> id' = 0, PaymentTransactionResponseDto.orderId = order_A, amount = 200, currency = UAH,
              type = PAYMENT, status = COMPLETED, paymentMethod = CARD,
              transactionReference = None, description = None, transactionTime = 1000,
              processedBy = None, metadata = None, createdAt = 1001, updatedAt = 1001 \<rparr>"
    using uuid_A(2)
    by (simp add: create_def validateOrderExists_def orders_up_def logger_def Let_def
        new_transactionModel_def save_def mapToResponseDto_def payment_200_def world0_def)
  ultimately show ?thesis using h g ne by simp
qed

text \<open>
  C6. A body whose amount is not positive is answered by the pipe with a
  \<^verbatim>\<open>BadRequestException\<close> naming the amount constraint. The world is left as it was:
  no request was sent to the orders service, nothing was stored, nothing was logged.
\<close>

theorem controller_create_rejects_amount:
  assumes "CreatePaymentTransactionDto.amount body \<le> 0"
  shows "controller_create isUUID NODE_ENV httpGet now ts body w
           = (Inl (BadRequestException (validate isUUID body)), w)
       \<and> ''amount must be a positive number'' \<in> set (validate isUUID body)"
proof -
  have m: "''amount must be a positive number'' \<in> set (validate isUUID body)"
    using assms by (simp add: validate_def)
  then obtain e es where "validate isUUID body = e # es"
    by (cases "validate isUUID body") auto
  then have "controller_create isUUID NODE_ENV httpGet now ts body w
           = (Inl (BadRequestException (validate isUUID body)), w)"
    by (simp add: controller_create_def ValidationPipe_def)
  with m show ?thesis by simp
qed

theorem controller_create_rejects_amount_witness:
  "CreatePaymentTransactionDto.amount (payment_200\<lparr>CreatePaymentTransactionDto.amount := - 50\<rparr>) \<le> 0
   \<and> controller_create uuid_shaped (Some ''production'') orders_up 1000 1001
        (payment_200\<lparr>CreatePaymentTransactionDto.amount := - 50\<rparr>) world0
       = (Inl (BadRequestException [''amount must be a positive number'']), world0)
   \<and> controller_create uuid_shaped (Some ''production'') orders_up 1000 1001
        (payment_200\<lparr>CreatePaymentTransactionDto.amount := 0\<rparr>) world0
       = (Inl (BadRequestException [''amount must be a positive number'']), world0)"
proof -
  have uuid_A: "uuid_shaped order_A" "order_A \<noteq> []"
    by (simp_all add: uuid_shaped_def order_A_def hex_digit_def)
  have h1: "CreatePaymentTransactionDto.amount (payment_200\<lparr>CreatePaymentTransactionDto.amount := - 50\<rparr>) \<le> 0"
    by simp
  have h2: "CreatePaymentTransactionDto.amount (payment_200\<lparr>CreatePaymentTransactionDto.amount := 0\<rparr>) \<le> 0"
    by simp
  have v1: "validate uuid_shaped (payment_200\<lparr>CreatePaymentTransactionDto.amount := - 50\<rparr>)
              = [''amount must be a positive number'']"
    by (simp add: validate_def payment_200_def uuid_A)
  have v2: "validate uuid_shaped (payment_200\<lparr>CreatePaymentTransactionDto.amount := 0\<rparr>)
              = [''amount must be a positive number'']"
    by (simp add: validate_def payment_200_def uuid_A)
  show ?thesis
    using h1 controller_create_rejects_amount [where isUUID = uuid_shaped and NODE_ENV = "Some ''production''"
        and httpGet = orders_up and now = 1000 and ts = 1001 and w = world0, OF h1]
      controller_create_rejects_amount [where isUUID = uuid_shaped and NODE_ENV = "Some ''production''"
        and httpGet = orders_up and now = 1000 and ts = 1001 and w = world0, OF h2]
    by (simp add: v1 v2)
qed

section \<open>Listing the transactions of an order\<close>

lemma insert_desc_mset: "mset (insert_desc tie d ds) = add_mset d (mset ds)"
  by (induction ds) simp_all

lemma sort_desc_mset: "mset (sort_desc tie ds) = mset ds"
  by (induction ds) (simp_all add: insert_desc_mset)

lemma insert_desc_set: "set (insert_desc tie d ds) = insert d (set ds)"
  using insert_desc_mset [of tie d ds] by (metis set_mset_add_mset_insert set_mset_mset)

lemma sort_desc_set: "set (sort_desc tie ds) = set ds"
  using sort_desc_mset [of tie ds] by (metis set_mset_mset)

lemma sort_desc_length: "length (sort_desc tie ds) = length ds"
  using sort_desc_mset [of tie ds] by (metis size_mset)

lemma insert_desc_sorted:
  assumes "sorted_wrt (\<lambda>a b. PaymentTransaction.transactionTime b \<le> PaymentTransaction.transactionTime a) ds"
  shows "sorted_wrt (\<lambda>a b. PaymentTransaction.transactionTime b \<le> PaymentTransaction.transactionTime a)
           (insert_desc tie d ds)"
  using assms
proof (induction ds)
  case Nil
  show ?case by simp
next
  case (Cons x xs)
  show ?case
  proof (cases "PaymentTransaction.transactionTime x < PaymentTransaction.transactionTime d
         \<or> (PaymentTransaction.transactionTime x = PaymentTransaction.transactionTime d \<and> tie d \<le> tie x)")
    case True
    then have "PaymentTransaction.transactionTime x \<le> PaymentTransaction.transactionTime d" by auto
    with True Cons.prems show ?thesis by auto
  next
    case False
    then have "PaymentTransaction.transactionTime d \<le> PaymentTransaction.transactionTime x" by auto
    with False Cons show ?thesis by (auto simp: insert_desc_set)
  qed
qed

lemma sort_desc_sorted:
  "sorted_wrt (\<lambda>a b. PaymentTransaction.transactionTime b \<le> PaymentTransaction.transactionTime a)
     (sort_desc tie ds)"
  by (induction ds) (simp_all add: insert_desc_sorted)

lemma findByOrderId_result:
  "fst (findByOrderId tie q w) =
     map mapToResponseDto
       (limit (size' q) (skip (from' q)
          (sort_desc tie (find_where (GetPaymentTransactionsDto.orderId q) (collection w)))))"
  by (simp add: findByOrderId_def Let_def logger_def)

lemma findByOrderId_collection: "collection (snd (findByOrderId tie q w)) = collection w"
  by (simp add: findByOrderId_def Let_def logger_def)

lemma mapToResponseDto_fields:
  "id' (mapToResponseDto d) = doc_id d"
  "PaymentTransactionResponseDto.orderId (mapToResponseDto d) = PaymentTransaction.orderId d"
  "PaymentTransactionResponseDto.amount (mapToResponseDto d) = PaymentTransaction.amount d"
  "PaymentTransactionResponseDto.currency (mapToResponseDto d) = PaymentTransaction.currency d"
  "PaymentTransactionResponseDto.type (mapToResponseDto d) = PaymentTransaction.type d"
  "PaymentTransactionResponseDto.status (mapToResponseDto d) = PaymentTransaction.status d"
  "PaymentTransactionResponseDto.paymentMethod (mapToResponseDto d) = PaymentTransaction.paymentMethod d"
  "PaymentTransactionResponseDto.transactionReference (mapToResponseDto d) = PaymentTransaction.transactionReference d"
  "PaymentTransactionResponseDto.description (mapToResponseDto d) = PaymentTransaction.description d"
  "PaymentTransactionResponseDto.transactionTime (mapToResponseDto d) = PaymentTransaction.transactionTime d"
  "PaymentTransactionResponseDto.processedBy (mapToResponseDto d) = PaymentTransaction.processedBy d"
  "PaymentTransactionResponseDto.metadata (mapToResponseDto d) = PaymentTransaction.metadata d"
  "PaymentTransactionResponseDto.createdAt (mapToResponseDto d) = PaymentTransaction.createdAt d"
  "PaymentTransactionResponseDto.updatedAt (mapToResponseDto d) = PaymentTransaction.updatedAt d"
  by (simp_all add: mapToResponseDto_def)

text \<open>
  C4. For a size between 1 and 100 and any offset, whatever the server does with equal
  transaction times: the stored transactions of the order, put most recent first, are
  a list \<open>s\<close>; what \<open>findByOrderId\<close> returns is, record by record and field by field,
  \<open>s\<close> without its first \<open>from\<close> elements and cut to at most \<open>size\<close>. So every returned
  record is of the order asked for, the returned records are in descending order of
  transaction time, and there are \<open>min size (n - from)\<close> of them, \<open>n\<close> being the number
  of stored transactions of the order. The result is always a list, and it is empty
  when the offset reaches \<open>n\<close> (none matching included).
\<close>

theorem findByOrderId_page:
  assumes "1 \<le> size' q" and "size' q \<le> 100"
  shows "mset (sort_desc tie (find_where (GetPaymentTransactionsDto.orderId q) (collection w)))
           = filter_mset (\<lambda>d. PaymentTransaction.orderId d = GetPaymentTransactionsDto.orderId q)
               (mset (collection w))
       \<and> sorted_wrt (\<lambda>a b. PaymentTransaction.transactionTime b \<le> PaymentTransaction.transactionTime a)
            (sort_desc tie (find_where (GetPaymentTransactionsDto.orderId q) (collection w)))
       \<and> list_all2
            (\<lambda>r d. id' r = doc_id d
                \<and> PaymentTransactionResponseDto.orderId r = PaymentTransaction.orderId d
                \<and> PaymentTransactionResponseDto.amount r = PaymentTransaction.amount d
                \<and> PaymentTransactionResponseDto.currency r = PaymentTransaction.currency d
                \<and> PaymentTransactionResponseDto.type r = PaymentTransaction.type d
                \<and> PaymentTransactionResponseDto.status r = PaymentTransaction.status d
                \<and> PaymentTransactionResponseDto.paymentMethod r = PaymentTransaction.paymentMethod d
                \<and> PaymentTransactionResponseDto.transactionReference r = PaymentTransaction.transactionReference d
                \<and> PaymentTransactionResponseDto.description r = PaymentTransaction.description d
                \<and> PaymentTransactionResponseDto.transactionTime r = PaymentTransaction.transactionTime d
                \<and> PaymentTransactionResponseDto.processedBy r = PaymentTransaction.processedBy d
                \<and> PaymentTransactionResponseDto.metadata r = PaymentTransaction.metadata d
                \<and> PaymentTransactionResponseDto.createdAt r = PaymentTransaction.createdAt d
                \<and> PaymentTransactionResponseDto.updatedAt r = PaymentTransaction.updatedAt d)
            (fst (findByOrderId tie q w))
            (take (size' q) (drop (from' q)
               (sort_desc tie (find_where (GetPaymentTransactionsDto.orderId q) (collection w)))))
       \<and> (\<forall>r \<in> set (fst (findByOrderId tie q w)).
             PaymentTransactionResponseDto.orderId r = GetPaymentTransactionsDto.orderId q)
       \<and> sorted_wrt (\<lambda>a b. PaymentTransactionResponseDto.transactionTime b
                              \<le> PaymentTransactionResponseDto.transactionTime a)
            (fst (findByOrderId tie q w))
       \<and> length (fst (findByOrderId tie q w))
           = min (size' q)
               (length (filter (\<lambda>d. PaymentTransaction.orderId d = GetPaymentTransactionsDto.orderId q)
                          (collection w)) - from' q)
       \<and> (length (filter (\<lambda>d. PaymentTransaction.orderId d = GetPaymentTransactionsDto.orderId q)
                     (collection w)) \<le> from' q
            \<longrightarrow> fst (findByOrderId tie q w) = [])"
proof -
  let ?oid = "GetPaymentTransactionsDto.orderId q"
  let ?s = "sort_desc tie (find_where ?oid (collection w))"
  let ?page = "take (size' q) (drop (from' q) ?s)"
  let ?desc = "\<lambda>a b. PaymentTransaction.transactionTime b \<le> PaymentTransaction.transactionTime a"
  have a: "mset ?s = filter_mset (\<lambda>d. PaymentTransaction.orderId d = ?oid) (mset (collection w))"
    by (simp add: sort_desc_mset find_where_def)
  have b: "sorted_wrt ?desc ?s"
    by (rule sort_desc_sorted)
  have c: "fst (findByOrderId tie q w) = map mapToResponseDto ?page"
    using assms(1) by (simp add: findByOrderId_result limit_def skip_def)
  have fields: "list_all2
            (\<lambda>r d. id' r = doc_id d
                \<and> PaymentTransactionResponseDto.orderId r = PaymentTransaction.orderId d
                \<and> PaymentTransactionResponseDto.amount r = PaymentTransaction.amount d
                \<and> PaymentTransactionResponseDto.currency r = PaymentTransaction.currency d
                \<and> PaymentTransactionResponseDto.type r = PaymentTransaction.type d
                \<and> PaymentTransactionResponseDto.status r = PaymentTransaction.status d
                \<and> PaymentTransactionResponseDto.paymentMethod r = PaymentTransaction.paymentMethod d
                \<and> PaymentTransactionResponseDto.transactionReference r = PaymentTransaction.transactionReference d
                \<and> PaymentTransactionResponseDto.description r = PaymentTransaction.description d
                \<and> PaymentTransactionResponseDto.transactionTime r = PaymentTransaction.transactionTime d
                \<and> PaymentTransactionResponseDto.processedBy r = PaymentTransaction.processedBy d
                \<and> PaymentTransactionResponseDto.metadata r = PaymentTransaction.metadata d
                \<and> PaymentTransactionResponseDto.createdAt r = PaymentTransaction.createdAt d
                \<and> PaymentTransactionResponseDto.updatedAt r = PaymentTransaction.updatedAt d)
            (fst (findByOrderId tie q w)) ?page"
    unfolding c by (simp add: list_all2_map1 list_all2_same mapToResponseDto_fields)
  have sub: "set ?page \<subseteq> set (find_where ?oid (collection w))"
    using set_take_subset set_drop_subset sort_desc_set by fast
  have own: "\<forall>r \<in> set (fst (findByOrderId tie q w)). PaymentTransactionResponseDto.orderId r = ?oid"
    unfolding c using sub by (auto simp: mapToResponseDto_fields find_where_def)
  have "sorted_wrt ?desc ?page"
    using b by (intro sorted_wrt_take sorted_wrt_drop)
  then have ord: "sorted_wrt (\<lambda>a b. PaymentTransactionResponseDto.transactionTime b
                              \<le> PaymentTransactionResponseDto.transactionTime a)
            (fst (findByOrderId tie q w))"
    unfolding c by (simp add: sorted_wrt_map mapToResponseDto_fields)
  have len: "length (fst (findByOrderId tie q w))
           = min (size' q) (length (filter (\<lambda>d. PaymentTransaction.orderId d = ?oid) (collection w)) - from' q)"
    by (simp add: c sort_desc_length find_where_def min.commute)
  have none: "length (filter (\<lambda>d. PaymentTransaction.orderId d = ?oid) (collection w)) \<le> from' q
            \<longrightarrow> fst (findByOrderId tie q w) = []"
    by (simp add: c sort_desc_length find_where_def)
  show ?thesis using a b fields own ord len none by blast
qed

theorem findByOrderId_page_witness:
  "(1::nat) \<le> 2 \<and> (2::nat) \<le> 100
   \<and> fst (findByOrderId no_tie \<lparr> GetPaymentTransactionsDto.orderId = order_A, size' = 2, from' = 0 \<rparr> world5)
       = [tx_response 2 order_A 50, tx_response 4 order_A 40]
   \<and> fst (findByOrderId newest_first \<lparr> GetPaymentTransactionsDto.orderId = order_A, size' = 2, from' = 0 \<rparr> world5)
       = [tx_response 2 order_A 50, tx_response 4 order_A 40]
   \<and> fst (findByOrderId no_tie \<lparr> GetPaymentTransactionsDto.orderId = order_A, size' = 2, from' = 4 \<rparr> world5)
       = [tx_response 3 order_A 10]
   \<and> fst (findByOrderId no_tie \<lparr> GetPaymentTransactionsDto.orderId = order_A, size' = 2, from' = 10 \<rparr> world5) = []
   \<and> fst (findByOrderId no_tie \<lparr> GetPaymentTransactionsDto.orderId = order_C, size' = 2, from' = 0 \<rparr> world5) = []
   \<and> length (fst (findByOrderId no_tie \<lparr> GetPaymentTransactionsDto.orderId = order_A, size' = 2, from' = 4 \<rparr> world5))
       = min 2 (5 - 4)
   \<and> fst (findByOrderId no_tie \<lparr> GetPaymentTransactionsDto.orderId = order_A, size' = 2, from' = 0 \<rparr> world_tie)
       = [tx_response 0 order_A 30, tx_response 1 order_A 30]
   \<and> fst (findByOrderId newest_first \<lparr> GetPaymentTransactionsDto.orderId = order_A, size' = 2, from' = 0 \<rparr> world_tie)
       = [tx_response 1 order_A 30, tx_response 0 order_A 30]"
proof -
  have h1: "1 \<le> size' \<lparr> GetPaymentTransactionsDto.orderId = oid, size' = 2, from' = f \<rparr>" for oid f
    by simp
  have h2: "size' \<lparr> GetPaymentTransactionsDto.orderId = oid, size' = 2, from' = f \<rparr> \<le> 100" for oid f
    by simp
  have ab: "order_A \<noteq> order_B" "order_A \<noteq> order_C" "order_B \<noteq> order_C"
    by (simp_all add: order_A_def order_B_def order_C_def)
  have fA: "find_where order_A (collection world5)
      = [tx 0 order_A 30, tx 2 order_A 50, tx 3 order_A 10, tx 4 order_A 40, tx 5 order_A 20]"
    using ab by (simp add: find_where_def world5_def tx_def)
  have fC: "find_where order_C (collection world5) = []"
    using ab by (simp add: find_where_def world5_def tx_def)
  have nA: "length (filter (\<lambda>d. PaymentTransaction.orderId d = order_A) (collection world5)) = 5"
    using fA by (simp add: find_where_def)
  have t: "PaymentTransaction.transactionTime (tx i oid t) = t" for i oid t
    by (simp add: tx_def)
  have m: "mapToResponseDto (tx i oid t) = tx_response i oid t" for i oid t
    by (simp add: mapToResponseDto_def tx_def tx_response_def)
  have r1: "fst (findByOrderId no_tie \<lparr> GetPaymentTransactionsDto.orderId = order_A, size' = 2, from' = 0 \<rparr> world5)
       = [tx_response 2 order_A 50, tx_response 4 order_A 40]"
    by (simp add: findByOrderId_result fA limit_def skip_def t m)
  have r2: "fst (findByOrderId newest_first \<lparr> GetPaymentTransactionsDto.orderId = order_A, size' = 2, from' = 0 \<rparr> world5)
       = [tx_response 2 order_A 50, tx_response 4 order_A 40]"
    by (simp add: findByOrderId_result fA limit_def skip_def t m)
  have r3: "fst (findByOrderId no_tie \<lparr> GetPaymentTransactionsDto.orderId = order_A, size' = 2, from' = 4 \<rparr> world5)
       = [tx_response 3 order_A 10]"
    by (simp add: findByOrderId_result fA limit_def skip_def t m)
  have e1: "fst (findByOrderId no_tie \<lparr> GetPaymentTransactionsDto.orderId = order_A, size' = 2, from' = 10 \<rparr> world5) = []"
    using findByOrderId_page [where q = "\<lparr> GetPaymentTransactionsDto.orderId = order_A, size' = 2, from' = 10 \<rparr>"
        and tie = no_tie and w = world5, OF h1 h2]
    by (simp add: nA)
  have e2: "fst (findByOrderId no_tie \<lparr> GetPaymentTransactionsDto.orderId = order_C, size' = 2, from' = 0 \<rparr> world5) = []"
    using findByOrderId_page [where q = "\<lparr> GetPaymentTransactionsDto.orderId = order_C, size' = 2, from' = 0 \<rparr>"
        and tie = no_tie and w = world5, OF h1 h2] fC
    by (simp add: find_where_def)
  have l: "length (fst (findByOrderId no_tie \<lparr> GetPaymentTransactionsDto.orderId = order_A, size' = 2, from' = 4 \<rparr> world5))
       = min 2 (5 - 4)"
    using findByOrderId_page [where q = "\<lparr> GetPaymentTransactionsDto.orderId = order_A, size' = 2, from' = 4 \<rparr>"
        and tie = no_tie and w = world5, OF h1 h2]
    by (simp add: nA)
  have i: "doc_id (tx i oid t) = i" for i oid t
    by (simp add: tx_def)
  have t1: "fst (findByOrderId no_tie \<lparr> GetPaymentTransactionsDto.orderId = order_A, size' = 2, from' = 0 \<rparr> world_tie)
       = [tx_response 0 order_A 30, tx_response 1 order_A 30]"
    by (simp add: findByOrderId_result find_where_def world_tie_def limit_def skip_def t m no_tie_def)
       (simp add: tx_def)
  have t2: "fst (findByOrderId newest_first \<lparr> GetPaymentTransactionsDto.orderId = order_A, size' = 2, from' = 0 \<rparr> world_tie)
       = [tx_response 1 order_A 30, tx_response 0 order_A 30]"
    by (simp add: findByOrderId_result find_where_def world_tie_def limit_def skip_def t m newest_first_def i)
       (simp add: tx_def)
  show ?thesis using r1 r2 r3 e1 e2 l t1 t2 by simp
qed

section \<open>Counting the transactions of many orders\<close>

lemma group_add_map_of:
  "map_of (group_add k gs) = (map_of gs)(k \<mapsto> (case map_of gs k of None \<Rightarrow> 1 | Some c \<Rightarrow> c + 1))"
proof (induction gs)
  case Nil
  show ?case by simp
next
  case (Cons g gs)
  obtain k' c where g: "g = (k', c)" by (cases g)
  show ?case using Cons.IH by (auto simp: g fun_eq_iff)
qed

lemma group_add_keys: "fst ` set (group_add k gs) = insert k (fst ` set gs)"
proof -
  have "dom (map_of (group_add k gs)) = insert k (dom (map_of gs))"
    by (simp add: group_add_map_of)
  then show ?thesis by (simp add: dom_map_of_conv_image_fst)
qed

lemma group_add_distinct: "distinct (map fst gs) \<Longrightarrow> distinct (map fst (group_add k gs))"
proof (induction gs)
  case Nil
  show ?case by simp
next
  case (Cons g gs)
  obtain k' c where g: "g = (k', c)" by (cases g)
  show ?case using Cons by (auto simp: g group_add_keys)
qed

lemma fold_group_add_distinct:
  "distinct (map fst gs) \<Longrightarrow> distinct (map fst (fold (\<lambda>d gs. group_add (f d) gs) ds gs))"
  by (induction ds arbitrary: gs) (simp_all add: group_add_distinct)

lemma fold_group_add_map_of:
  "map_of (fold (\<lambda>d gs. group_add (f d) gs) ds gs) k =
     (case map_of gs k of
        None \<Rightarrow> (if filter (\<lambda>d. f d = k) ds = [] then None else Some (length (filter (\<lambda>d. f d = k) ds)))
      | Some c \<Rightarrow> Some (c + length (filter (\<lambda>d. f d = k) ds)))"
proof (induction ds arbitrary: gs)
  case Nil
  show ?case by (simp split: option.splits)
next
  case (Cons d ds)
  show ?case
    by (simp add: Cons.IH group_add_map_of split: option.splits)
qed

lemma aggregate_distinct: "distinct (map fst (aggregate orderIds docs))"
  by (simp add: aggregate_def fold_group_add_distinct)

lemma aggregate_map_of:
  "map_of (aggregate orderIds docs) k =
     (if k \<in> set orderIds \<and> filter (\<lambda>d. PaymentTransaction.orderId d = k) docs \<noteq> []
      then Some (length (filter (\<lambda>d. PaymentTransaction.orderId d = k) docs)) else None)"
proof -
  have "filter (\<lambda>d. PaymentTransaction.orderId d = k)
          (filter (\<lambda>d. PaymentTransaction.orderId d \<in> set orderIds) docs)
        = (if k \<in> set orderIds then filter (\<lambda>d. PaymentTransaction.orderId d = k) docs else [])"
    by (induction docs) auto
  then show ?thesis
    by (simp add: aggregate_def fold_group_add_map_of)
qed

lemma fold_zero:
  "fold (\<lambda>orderId counts. assign orderId 0 counts) orderIds m k
     = (if k \<in> set orderIds \<and> k \<noteq> ''__proto__'' then Some 0 else m k)"
  by (induction orderIds arbitrary: m) (auto simp: assign_def)

lemma fold_assign:
  "distinct (map fst kvs) \<Longrightarrow>
     fold (\<lambda>(k, c) counts. assign k c counts) kvs m key
       = (if key = ''__proto__'' then m key else (m ++ map_of kvs) key)"
proof (induction kvs arbitrary: m)
  case Nil
  show ?case by simp
next
  case (Cons kv kvs)
  obtain k c where kv: "kv = (k, c)" by (cases kv)
  from Cons.prems have fresh: "map_of kvs k = None" and rest: "distinct (map fst kvs)"
    by (auto simp: kv map_of_eq_None_iff)
  have "fold (\<lambda>(k, c) counts. assign k c counts) (kv # kvs) m key
          = fold (\<lambda>(k, c) counts. assign k c counts) kvs (assign k c m) key"
    by (simp only: kv fold_Cons comp_apply prod.case)
  also have "\<dots> = (if key = ''__proto__'' then assign k c m key else (assign k c m ++ map_of kvs) key)"
    by (rule Cons.IH [OF rest])
  also have "\<dots> = (if key = ''__proto__'' then m key else (m ++ map_of (kv # kvs)) key)"
    using fresh by (auto simp: kv assign_def map_add_def split: option.splits)
  finally show ?case .
qed

lemma getCountsByOrderIds_result:
  "fst (getCountsByOrderIds orderIds w) oid =
     (if oid \<in> set orderIds \<and> oid \<noteq> ''__proto__''
      then Some (length (filter (\<lambda>d. PaymentTransaction.orderId d = oid) (collection w)))
      else None)"
proof -
  have "fst (getCountsByOrderIds orderIds w) oid
          = fold (\<lambda>(k, c) counts. assign k c counts) (aggregate orderIds (collection w))
              (fold (\<lambda>orderId counts. assign orderId 0 counts) orderIds Map.empty) oid"
    by (simp add: getCountsByOrderIds_def Let_def logger_def)
  then show ?thesis
    by (simp add: fold_assign aggregate_distinct map_add_def fold_zero aggregate_map_of)
qed

lemma getCountsByOrderIds_collection: "collection (snd (getCountsByOrderIds orderIds w)) = collection w"
  by (simp add: getCountsByOrderIds_def Let_def logger_def)

text \<open>
  C5. The keys of the mapping \<open>getCountsByOrderIds\<close> returns are exactly the distinct
  ids of its input, each id maps to the number of stored transactions of that order
  (0 when there are none), and the mapping of the empty input is empty. The one string
  that never becomes a key is \<^verbatim>\<open>__proto__\<close>, which is not an order id.
\<close>

theorem getCountsByOrderIds_counts:
  "dom (fst (getCountsByOrderIds orderIds w)) = set orderIds - {''__proto__''}
   \<and> (\<forall>oid \<in> set orderIds. oid \<noteq> ''__proto__'' \<longrightarrow>
         fst (getCountsByOrderIds orderIds w) oid
           = Some (length (filter (\<lambda>d. PaymentTransaction.orderId d = oid) (collection w))))
   \<and> (''__proto__'' \<notin> set orderIds \<longrightarrow> dom (fst (getCountsByOrderIds orderIds w)) = set orderIds)
   \<and> fst (getCountsByOrderIds [] w) = Map.empty"
proof (intro conjI ballI impI)
  show d: "dom (fst (getCountsByOrderIds orderIds w)) = set orderIds - {''__proto__''}"
    by (auto simp: dom_def getCountsByOrderIds_result)
  show "fst (getCountsByOrderIds orderIds w) oid
           = Some (length (filter (\<lambda>d. PaymentTransaction.orderId d = oid) (collection w)))"
    if "oid \<in> set orderIds" and "oid \<noteq> ''__proto__''" for oid
    using that by (simp add: getCountsByOrderIds_result)
  show "dom (fst (getCountsByOrderIds orderIds w)) = set orderIds" if "''__proto__'' \<notin> set orderIds"
    using that d by auto
  show "fst (getCountsByOrderIds [] w) = Map.empty"
    by (rule ext) (simp add: getCountsByOrderIds_result)
qed

theorem getCountsByOrderIds_counts_witness:
  "''__proto__'' \<notin> set [order_A, order_C, order_A]
   \<and> dom (fst (getCountsByOrderIds [order_A, order_C, order_A] world5)) = {order_A, order_C}
   \<and> fst (getCountsByOrderIds [order_A, order_C, order_A] world5) order_A = Some 5
   \<and> fst (getCountsByOrderIds [order_A, order_C, order_A] world5) order_C = Some 0
   \<and> fst (getCountsByOrderIds [order_A, order_C, order_A] world5) order_B = None
   \<and> fst (getCountsByOrderIds [] world5) = Map.empty"
proof -
  have ab: "order_A \<noteq> order_B" "order_A \<noteq> order_C" "order_B \<noteq> order_C"
    by (simp_all add: order_A_def order_B_def order_C_def)
  have np: "order_A \<noteq> ''__proto__''" "order_C \<noteq> ''__proto__''"
    by (simp_all add: order_A_def order_C_def)
  have h: "''__proto__'' \<notin> set [order_A, order_C, order_A]"
    using np by auto
  have mA: "order_A \<in> set [order_A, order_C, order_A]" and mC: "order_C \<in> set [order_A, order_C, order_A]"
    by simp_all
  note t = getCountsByOrderIds_counts [of "[order_A, order_C, order_A]" world5]
  have d: "dom (fst (getCountsByOrderIds [order_A, order_C, order_A] world5)) = {order_A, order_C}"
    using t h by auto
  have b: "order_B \<notin> dom (fst (getCountsByOrderIds [order_A, order_C, order_A] world5))"
    using ab by (simp add: d)
  have cA: "length (filter (\<lambda>d. PaymentTransaction.orderId d = order_A) (collection world5)) = 5"
    using ab by (simp add: world5_def tx_def)
  have cC: "length (filter (\<lambda>d. PaymentTransaction.orderId d = order_C) (collection world5)) = 0"
    using ab by (simp add: world5_def tx_def)
  have vA: "fst (getCountsByOrderIds [order_A, order_C, order_A] world5) order_A = Some 5"
    using t mA np(1) cA by metis
  have vC: "fst (getCountsByOrderIds [order_A, order_C, order_A] world5) order_C = Some 0"
    using t mC np(2) cC by metis
  have vB: "fst (getCountsByOrderIds [order_A, order_C, order_A] world5) order_B = None"
    using b by (metis domIff)
  have e: "fst (getCountsByOrderIds [] world5) = Map.empty"
    using getCountsByOrderIds_counts [of "[]" world5] by blast
  show ?thesis using h d vA vC vB e by blast
qed

section \<open>What the operations leave alone\<close>

text \<open>
  C10. \<open>findByOrderId\<close> and \<open>getCountsByOrderIds\<close> leave the collection as it is.
  \<open>deleteByOrderId\<close> leaves the transactions of every other order as they are, in
  their order; what it removes are the transactions of its own order, and it returns
  how many they were.
\<close>

theorem reads_and_delete_frame:
  "collection (snd (findByOrderId tie q w)) = collection w
   \<and> collection (snd (getCountsByOrderIds orderIds w)) = collection w
   \<and> (\<forall>other. other \<noteq> oid \<longrightarrow>
          filter (\<lambda>d. PaymentTransaction.orderId d = other) (collection (snd (deleteByOrderId oid w)))
            = filter (\<lambda>d. PaymentTransaction.orderId d = other) (collection w))
   \<and> mset (collection w)
       = mset (collection (snd (deleteByOrderId oid w)))
         + filter_mset (\<lambda>d. PaymentTransaction.orderId d = oid) (mset (collection w))
   \<and> fst (deleteByOrderId oid w)
       = length (filter (\<lambda>d. PaymentTransaction.orderId d = oid) (collection w))"
proof -
  have del: "collection (snd (deleteByOrderId oid w))
               = filter (\<lambda>d. PaymentTransaction.orderId d \<noteq> oid) (collection w)"
    by (simp add: deleteByOrderId_def deleteMany_def)
  have keep: "filter (\<lambda>d. PaymentTransaction.orderId d = other) (filter (\<lambda>d. PaymentTransaction.orderId d \<noteq> oid) ds)
               = filter (\<lambda>d. PaymentTransaction.orderId d = other) ds" if "other \<noteq> oid" for other ds
    using that by (induction ds) auto
  have halves: "mset ds = mset (filter (\<lambda>d. PaymentTransaction.orderId d \<noteq> oid) ds)
                 + filter_mset (\<lambda>d. PaymentTransaction.orderId d = oid) (mset ds)"
    for ds :: "PaymentTransaction list"
    by (induction ds) auto
  have cnt: "fst (deleteByOrderId oid w)
       = length (filter (\<lambda>d. PaymentTransaction.orderId d = oid) (collection w))"
    by (simp add: deleteByOrderId_def deleteMany_def)
  have others: "\<forall>other. other \<noteq> oid \<longrightarrow>
          filter (\<lambda>d. PaymentTransaction.orderId d = other) (collection (snd (deleteByOrderId oid w)))
            = filter (\<lambda>d. PaymentTransaction.orderId d = other) (collection w)"
    unfolding del using keep by blast
  have parts: "mset (collection w)
       = mset (collection (snd (deleteByOrderId oid w)))
         + filter_mset (\<lambda>d. PaymentTransaction.orderId d = oid) (mset (collection w))"
    unfolding del by (rule halves)
  show ?thesis
    using findByOrderId_collection [of tie q w] getCountsByOrderIds_collection [of orderIds w]
      others parts cnt
    by blast
qed

theorem reads_and_delete_frame_witness:
  "collection (snd (findByOrderId no_tie \<lparr> GetPaymentTransactionsDto.orderId = order_A, size' = 2, from' = 0 \<rparr> world5))
      = collection world5
   \<and> collection (snd (getCountsByOrderIds [order_A, order_B] world5)) = collection world5
   \<and> order_B \<noteq> order_A
   \<and> collection (snd (deleteByOrderId order_A world5)) = [tx 1 order_B 10]
   \<and> fst (deleteByOrderId order_A world5) = 5"
proof -
  have ab: "order_B \<noteq> order_A"
    by (simp add: order_A_def order_B_def)
  have c: "collection (snd (deleteByOrderId order_A world5)) = [tx 1 order_B 10]"
    using ab by (simp add: deleteByOrderId_def deleteMany_def world5_def tx_def)
  have n: "length (filter (\<lambda>d. PaymentTransaction.orderId d = order_A) (collection world5)) = 5"
    using ab by (simp add: world5_def tx_def)
  show ?thesis
    using reads_and_delete_frame [of no_tie "\<lparr> GetPaymentTransactionsDto.orderId = order_A, size' = 2, from' = 0 \<rparr>"
        world5 "[order_A, order_B]" order_A] ab c n
    by simp
qed

section \<open>The order of the steps of \<^verbatim>\<open>create\<close>\<close>

text \<open>
  C7, as stated, fails. With an input that has neither currency nor transaction time
  and an orders service that answers 404, the validator has been invoked (the request
  was sent) and the input is still without currency and without transaction time when
  \<open>create\<close> throws: it was not normalized before the validator ran. Normalizing first,
  as the specification orders the steps, would leave the input with currency UAH.
\<close>

theorem create_normalizes_first_counterexample:
  "requests (snd (snd (create (Some ''production'') orders_404 1000 1001 payment_200 world0)))
      = [''/api/orders/a1b2c3d4-1111-4444-8888-123456789001'']
   \<and> CreatePaymentTransactionDto.currency
        (fst (snd (create (Some ''production'') orders_404 1000 1001 payment_200 world0))) = None
   \<and> CreatePaymentTransactionDto.transactionTime
        (fst (snd (create (Some ''production'') orders_404 1000 1001 payment_200 world0))) = None
   \<and> CreatePaymentTransactionDto.currency
        (fst (snd (create_as_specified (Some ''production'') orders_404 1000 1001 payment_200 world0))) = Some UAH
   \<and> create (Some ''production'') orders_404 1000 1001 payment_200 world0
      \<noteq> create_as_specified (Some ''production'') orders_404 1000 1001 payment_200 world0"
proof -
  have v: "fst (validateOrderExists (Some ''production'') orders_404
                  (CreatePaymentTransactionDto.orderId payment_200) world0)
             = Inl (NotFoundException (''Order with id '' @ [CHR 0x27]
                      @ CreatePaymentTransactionDto.orderId payment_200 @ [CHR 0x27] @ '' not found''))"
    by (simp add: validateOrderExists_def orders_404_def Let_def)
  have d: "fst (snd (create (Some ''production'') orders_404 1000 1001 payment_200 world0)) = payment_200"
    by (rule create_rejected'(2) [OF v])
  have r: "requests (snd (snd (create (Some ''production'') orders_404 1000 1001 payment_200 world0)))
      = [''/api/orders/a1b2c3d4-1111-4444-8888-123456789001'']"
    using create_rejected'(5) [OF v, of 1000 1001] by (simp add: world0_def payment_200_def order_A_def)
  have s: "fst (snd (create_as_specified (Some ''production'') orders_404 1000 1001 payment_200 world0))
             = normalized 1000 payment_200"
    by (simp add: create_as_specified_def validateOrderExists_def orders_404_def Let_def)
  have c: "CreatePaymentTransactionDto.currency (normalized 1000 payment_200) = Some UAH"
    by (simp add: normalized_def payment_200_def)
  have p: "CreatePaymentTransactionDto.currency payment_200 = None"
      "CreatePaymentTransactionDto.transactionTime payment_200 = None"
    by (simp_all add: payment_200_def)
  have "fst (snd (create (Some ''production'') orders_404 1000 1001 payment_200 world0))
          \<noteq> fst (snd (create_as_specified (Some ''production'') orders_404 1000 1001 payment_200 world0))"
    using c p unfolding d s by auto
  then have "create (Some ''production'') orders_404 1000 1001 payment_200 world0
      \<noteq> create_as_specified (Some ''production'') orders_404 1000 1001 payment_200 world0"
    by auto
  then show ?thesis using r p c by (simp add: d s)
qed

text \<open>
  C7, amended. \<open>create\<close> invokes the validator first, on the order id as submitted.
  When the validator throws, \<open>create\<close> throws the same, the input is left as submitted
  and nothing is stored. When the validator returns, the input is normalized (an absent
  transaction time becomes the current time, an absent currency becomes UAH) and it is
  the normalized input that is delegated to the store, which stores and returns it
  (and refuses an empty order id).
\<close>

theorem create_validates_then_normalizes:
  "requests (snd (snd (create NODE_ENV httpGet now ts dto w)))
      = requests w @ [''/api/orders/'' @ CreatePaymentTransactionDto.orderId dto]
   \<and> (\<forall>e. fst (validateOrderExists NODE_ENV httpGet (CreatePaymentTransactionDto.orderId dto) w) = Inl e \<longrightarrow>
          fst (create NODE_ENV httpGet now ts dto w) = Inl e
        \<and> fst (snd (create NODE_ENV httpGet now ts dto w)) = dto
        \<and> collection (snd (snd (create NODE_ENV httpGet now ts dto w))) = collection w)
   \<and> (\<forall>v. fst (validateOrderExists NODE_ENV httpGet (CreatePaymentTransactionDto.orderId dto) w) = Inr v \<longrightarrow>
          fst (snd (create NODE_ENV httpGet now ts dto w)) = normalized now dto
        \<and> collection (snd (snd (create NODE_ENV httpGet now ts dto w)))
            = (if CreatePaymentTransactionDto.orderId dto = [] then collection w
               else collection w @ [minimize (fst (new_transactionModel ts (normalized now dto) w))])
        \<and> fst (create NODE_ENV httpGet now ts dto w)
            = (if CreatePaymentTransactionDto.orderId dto = [] then Inl (ValidationError [''orderId''])
               else Inr (mapToResponseDto (fst (new_transactionModel ts (normalized now dto) w)))))"
proof (intro conjI allI impI)
  show "requests (snd (snd (create NODE_ENV httpGet now ts dto w)))
      = requests w @ [''/api/orders/'' @ CreatePaymentTransactionDto.orderId dto]"
  proof (cases "fst (validateOrderExists NODE_ENV httpGet (CreatePaymentTransactionDto.orderId dto) w)")
    case (Inl e)
    then show ?thesis by (rule create_rejected'(5))
  next
    case (Inr v)
    then show ?thesis by (rule create_accepted(5))
  qed
next
  fix e
  assume v: "fst (validateOrderExists NODE_ENV httpGet (CreatePaymentTransactionDto.orderId dto) w) = Inl e"
  show "fst (create NODE_ENV httpGet now ts dto w) = Inl e" by (rule create_rejected'(1) [OF v])
  show "fst (snd (create NODE_ENV httpGet now ts dto w)) = dto" by (rule create_rejected'(2) [OF v])
  show "collection (snd (snd (create NODE_ENV httpGet now ts dto w))) = collection w"
    by (rule create_rejected'(3) [OF v])
next
  fix v
  assume v: "fst (validateOrderExists NODE_ENV httpGet (CreatePaymentTransactionDto.orderId dto) w) = Inr v"
  show "fst (snd (create NODE_ENV httpGet now ts dto w)) = normalized now dto"
    by (rule create_accepted(2) [OF v])
  show "collection (snd (snd (create NODE_ENV httpGet now ts dto w)))
            = (if CreatePaymentTransactionDto.orderId dto = [] then collection w
               else collection w @ [minimize (fst (new_transactionModel ts (normalized now dto) w))])"
    by (rule create_accepted(3) [OF v])
  show "fst (create NODE_ENV httpGet now ts dto w)
            = (if CreatePaymentTransactionDto.orderId dto = [] then Inl (ValidationError [''orderId''])
               else Inr (mapToResponseDto (fst (new_transactionModel ts (normalized now dto) w))))"
    by (rule create_accepted(1) [OF v])
qed

theorem create_validates_then_normalizes_witness:
  "fst (validateOrderExists None orders_404 (CreatePaymentTransactionDto.orderId payment_200) world0)
      = Inl (NotFoundException (''Order with id '' @ [CHR 0x27] @ order_A @ [CHR 0x27] @ '' not found''))
   \<and> fst (snd (create None orders_404 1000 1001 payment_200 world0)) = payment_200
   \<and> collection (snd (snd (create None orders_404 1000 1001 payment_200 world0))) = []
   \<and> fst (validateOrderExists None orders_up (CreatePaymentTransactionDto.orderId payment_200) world0)
      = Inr (Some (OrderResponse order_A (301 / 2) ''NEW'' (Customer ''c1'' ''Ada'' ''Lovelace'')))
   \<and> fst (snd (create None orders_up 1000 1001 payment_200 world0))
      = payment_200\<lparr>CreatePaymentTransactionDto.transactionTime := Some 1000,
                    CreatePaymentTransactionDto.currency := Some UAH\<rparr>
   \<and> length (collection (snd (snd (create None orders_up 1000 1001 payment_200 world0)))) = 1"
proof -
  have v1: "fst (validateOrderExists None orders_404 (CreatePaymentTransactionDto.orderId payment_200) world0)
      = Inl (NotFoundException (''Order with id '' @ [CHR 0x27] @ order_A @ [CHR 0x27] @ '' not found''))"
    by (simp add: validateOrderExists_def orders_404_def Let_def payment_200_def)
  have v2: "fst (validateOrderExists None orders_up (CreatePaymentTransactionDto.orderId payment_200) world0)
      = Inr (Some (OrderResponse order_A (301 / 2) ''NEW'' (Customer ''c1'' ''Ada'' ''Lovelace'')))"
    by (simp add: validateOrderExists_def orders_up_def Let_def)
  have n: "normalized 1000 payment_200
      = payment_200\<lparr>CreatePaymentTransactionDto.transactionTime := Some 1000,
                    CreatePaymentTransactionDto.currency := Some UAH\<rparr>"
    by (simp add: normalized_def payment_200_def)
  have w: "collection world0 = []" by (simp add: world0_def)
  have ne: "CreatePaymentTransactionDto.orderId payment_200 \<noteq> []"
    by (simp add: payment_200_def order_A_def)
  show ?thesis
    using v1 v2 ne
      create_validates_then_normalizes [of None orders_404 1000 1001 payment_200 world0]
      create_validates_then_normalizes [of None orders_up 1000 1001 payment_200 world0]
    by (simp add: n w)
qed

section \<open>Creating, then listing\<close>









end
